theory Spec2Isabelle
  imports Complex_Main
begin

section \<open>Floating-point cells\<close>

text \<open>
  Every numeric cell of a pandas table is a float64. A cell is modelled as a real number
  or one of the three special values of IEEE 754. Arithmetic on the special values follows
  IEEE 754 (as numpy computes it, with warnings and no exception); arithmetic on two finite
  values is exact real arithmetic: rounding, overflow and the sign of zero are not modelled
  (a nonzero value divided by zero takes the sign of the numerator).
\<close>

datatype flt = Fin real | PInf | NInf | NaN

fun is_finite :: "flt \<Rightarrow> bool" where
  "is_finite (Fin x) = True"
| "is_finite PInf = False"
| "is_finite NInf = False"
| "is_finite NaN = False"

fun isna :: "flt \<Rightarrow> bool" where
  "isna NaN = True"
| "isna (Fin x) = False"
| "isna PInf = False"
| "isna NInf = False"

fun fneg :: "flt \<Rightarrow> flt" where
  "fneg (Fin x) = Fin (- x)"
| "fneg PInf = NInf"
| "fneg NInf = PInf"
| "fneg NaN = NaN"

fun fadd :: "flt \<Rightarrow> flt \<Rightarrow> flt" where
  "fadd (Fin x) (Fin y) = Fin (x + y)"
| "fadd NaN b = NaN"
| "fadd a NaN = NaN"
| "fadd PInf NInf = NaN"
| "fadd NInf PInf = NaN"
| "fadd PInf b = PInf"
| "fadd NInf b = NInf"
| "fadd a PInf = PInf"
| "fadd a NInf = NInf"

definition fsub :: "flt \<Rightarrow> flt \<Rightarrow> flt" where
  "fsub a b = fadd a (fneg b)"

fun fmul :: "flt \<Rightarrow> flt \<Rightarrow> flt" where
  "fmul (Fin x) (Fin y) = Fin (x * y)"
| "fmul NaN b = NaN"
| "fmul a NaN = NaN"
| "fmul PInf (Fin y) = (if y = 0 then NaN else if 0 < y then PInf else NInf)"
| "fmul NInf (Fin y) = (if y = 0 then NaN else if 0 < y then NInf else PInf)"
| "fmul (Fin x) PInf = (if x = 0 then NaN else if 0 < x then PInf else NInf)"
| "fmul (Fin x) NInf = (if x = 0 then NaN else if 0 < x then NInf else PInf)"
| "fmul PInf PInf = PInf"
| "fmul NInf NInf = PInf"
| "fmul PInf NInf = NInf"
| "fmul NInf PInf = NInf"

fun fdiv :: "flt \<Rightarrow> flt \<Rightarrow> flt" where
  "fdiv (Fin x) (Fin y) =
     (if y = 0 then (if x = 0 then NaN else if 0 < x then PInf else NInf)
      else Fin (x / y))"
| "fdiv NaN b = NaN"
| "fdiv a NaN = NaN"
| "fdiv (Fin x) PInf = Fin 0"
| "fdiv (Fin x) NInf = Fin 0"
| "fdiv PInf (Fin y) = (if 0 \<le> y then PInf else NInf)"
| "fdiv NInf (Fin y) = (if 0 \<le> y then NInf else PInf)"
| "fdiv PInf b = NaN"
| "fdiv NInf b = NaN"

text \<open>The comparison \<open>a > b\<close>: false whenever an operand is NaN.\<close>

fun fgt :: "flt \<Rightarrow> flt \<Rightarrow> bool" where
  "fgt (Fin x) (Fin y) = (y < x)"
| "fgt NaN b = False"
| "fgt a NaN = False"
| "fgt PInf PInf = False"
| "fgt PInf b = True"
| "fgt a NInf = (a \<noteq> NInf)"
| "fgt a PInf = False"
| "fgt NInf b = False"

text \<open>\<open>Series.sum()\<close> of pandas: missing values are skipped, the empty sum is 0.\<close>

definition fsum :: "flt list \<Rightarrow> flt" where
  "fsum xs = foldl fadd (Fin 0) (filter (\<lambda>x. \<not> isna x) xs)"

text \<open>\<open>Series.mean()\<close> of pandas: missing values are skipped; no value left gives NaN.\<close>

definition fmean :: "flt list \<Rightarrow> flt" where
  "fmean xs = (let ys = filter (\<lambda>x. \<not> isna x) xs
               in if ys = [] then NaN else fdiv (fsum ys) (Fin (real (length ys))))"

datatype error = KeyError string | IndexError | ValueError string

section \<open>The scaler (preprocessing/scaler.py)\<close>

text \<open>
  A numeric table: the column names in order and the rows of cells. A DataFrame is
  rectangular: every row has one cell per column.
\<close>

record table =
  columns :: "string list"
  cells :: "flt list list"

definition wf_table :: "table \<Rightarrow> bool" where
  "wf_table t = list_all (\<lambda>r. length r = length (columns t)) (cells t)"

definition column :: "flt list list \<Rightarrow> nat \<Rightarrow> flt list" where
  "column rs j = map (\<lambda>r. r ! j) rs"

subsection \<open>The two scikit-learn scalers\<close>

text \<open>
  The scalers are scikit-learn's, used with their default parameters. They are modelled
  as the library documents them. Both refuse an input with no row, with no column or with
  an infinite cell (ValueError), and treat NaN as a missing value: it is disregarded when
  fitting and kept when transforming. A scaler that was not fitted refuses to transform
  (NotFittedError, a ValueError).

  StandardScaler keeps per column the mean and the population standard deviation, the
  latter replaced by 1 when it is zero; \<open>z = (x - mean) / scale\<close> and back
  \<open>x = z * scale + mean\<close>.
  MinMaxScaler (range 0 to 1) keeps per column \<open>scale = 1 / (max - min)\<close>, the
  difference replaced by 1 when it is zero, and \<open>min_ = 0 - min * scale\<close>;
  \<open>z = x * scale + min_\<close> and back \<open>x = (z - min_) / scale\<close>.
  The fitted state is the list of the per-column pairs (mean, scale) or (min_, scale).
\<close>

datatype sk_scaler = StandardScaler "(flt \<times> flt) list option"
  | MinMaxScaler "(flt \<times> flt) list option"

fun finite_values :: "flt list \<Rightarrow> real list" where
  "finite_values [] = []"
| "finite_values (Fin x # xs) = x # finite_values xs"
| "finite_values (c # xs) = finite_values xs"

definition handle_zeros_in_scale :: "real \<Rightarrow> real" where
  "handle_zeros_in_scale s = (if s = 0 then 1 else s)"

definition standard_stats :: "flt list \<Rightarrow> flt \<times> flt" where
  "standard_stats col =
     (let vs = finite_values col; n = real (length vs)
      in if vs = [] then (NaN, NaN)
         else (let mean = sum_list vs / n;
                   var = sum_list (map (\<lambda>x. (x - mean) ^ 2) vs) / n
               in (Fin mean, Fin (handle_zeros_in_scale (sqrt var)))))"

definition minmax_stats :: "flt list \<Rightarrow> flt \<times> flt" where
  "minmax_stats col =
     (let vs = finite_values col
      in if vs = [] then (NaN, NaN)
         else (let data_min = Min (set vs); data_max = Max (set vs);
                   scale = 1 / handle_zeros_in_scale (data_max - data_min)
               in (Fin (0 - data_min * scale), Fin scale)))"

definition has_inf :: "flt list list \<Rightarrow> bool" where
  "has_inf rs = list_ex (list_ex (\<lambda>x. x = PInf \<or> x = NInf)) rs"

definition check_array :: "table \<Rightarrow> error + unit" where
  "check_array t =
     (if cells t = [] then Inl (ValueError ''Found array with 0 sample(s)'')
      else if columns t = [] then Inl (ValueError ''Found array with 0 feature(s)'')
      else if has_inf (cells t) then Inl (ValueError ''Input X contains infinity'')
      else Inr ())"

definition fit_params :: "(flt list \<Rightarrow> flt \<times> flt) \<Rightarrow> table \<Rightarrow> (flt \<times> flt) list" where
  "fit_params stats t = map (\<lambda>j. stats (column (cells t) j)) [0..<length (columns t)]"

definition standard_forward :: "flt \<Rightarrow> flt \<times> flt \<Rightarrow> flt" where
  "standard_forward x p = fdiv (fsub x (fst p)) (snd p)"

definition standard_backward :: "flt \<Rightarrow> flt \<times> flt \<Rightarrow> flt" where
  "standard_backward z p = fadd (fmul z (snd p)) (fst p)"

definition minmax_forward :: "flt \<Rightarrow> flt \<times> flt \<Rightarrow> flt" where
  "minmax_forward x p = fadd (fmul x (snd p)) (fst p)"

definition minmax_backward :: "flt \<Rightarrow> flt \<times> flt \<Rightarrow> flt" where
  "minmax_backward z p = fdiv (fsub z (fst p)) (snd p)"

definition apply_params :: "(flt \<Rightarrow> flt \<times> flt \<Rightarrow> flt) \<Rightarrow> (flt \<times> flt) list \<Rightarrow>
    flt list list \<Rightarrow> flt list list" where
  "apply_params f ps rs = map (\<lambda>r. map2 f r ps) rs"

text \<open>\<open>fit_transform\<close> of the library: the fitted scaler and the transformed array.\<close>

fun sk_fit_transform :: "sk_scaler \<Rightarrow> table \<Rightarrow> error + (sk_scaler \<times> flt list list)" where
  "sk_fit_transform (StandardScaler old) t =
     (case check_array t of Inl e \<Rightarrow> Inl e
      | Inr u \<Rightarrow> (let ps = fit_params standard_stats t
                 in Inr (StandardScaler (Some ps), apply_params standard_forward ps (cells t))))"
| "sk_fit_transform (MinMaxScaler old) t =
     (case check_array t of Inl e \<Rightarrow> Inl e
      | Inr u \<Rightarrow> (let ps = fit_params minmax_stats t
                 in Inr (MinMaxScaler (Some ps), apply_params minmax_forward ps (cells t))))"

text \<open>
  \<open>transform\<close> checks the number of columns against the fitted one.
  \<open>inverse_transform\<close> does not: numpy broadcasts the fitted arrays, so a scaler
  fitted on a single column applies that column's pair to every column, and any other
  mismatch raises ValueError.
\<close>

definition with_fitted :: "bool \<Rightarrow> (flt \<times> flt) list option \<Rightarrow> table \<Rightarrow>
    ((flt \<times> flt) list \<Rightarrow> flt list list) \<Rightarrow> error + flt list list" where
  "with_fitted broadcast st t f =
     (case st of None \<Rightarrow> Inl (ValueError ''This scaler instance is not fitted yet'')
      | Some ps \<Rightarrow>
          (case check_array t of Inl e \<Rightarrow> Inl e
           | Inr u \<Rightarrow>
               if length (columns t) = length ps then Inr (f ps)
               else if broadcast \<and> length ps = 1
               then Inr (f (concat (replicate (length (columns t)) ps)))
               else Inl (ValueError ''X has a different number of features'')))"

fun sk_transform :: "sk_scaler \<Rightarrow> table \<Rightarrow> error + flt list list" where
  "sk_transform (StandardScaler st) t =
     with_fitted False st t (\<lambda>ps. apply_params standard_forward ps (cells t))"
| "sk_transform (MinMaxScaler st) t =
     with_fitted False st t (\<lambda>ps. apply_params minmax_forward ps (cells t))"

fun sk_inverse_transform :: "sk_scaler \<Rightarrow> table \<Rightarrow> error + flt list list" where
  "sk_inverse_transform (StandardScaler st) t =
     with_fitted True st t (\<lambda>ps. apply_params standard_backward ps (cells t))"
| "sk_inverse_transform (MinMaxScaler st) t =
     with_fitted True st t (\<lambda>ps. apply_params minmax_backward ps (cells t))"

subsection \<open>DataScaler\<close>

text \<open>
  \<open>DataScaler.__init__\<close>: the object holds the scikit-learn scaler chosen by the
  string and the string itself; any other string raises ValueError and no object exists.
\<close>

record DataScaler =
  scaler :: sk_scaler
  scaler_type :: string

definition DataScaler_init :: "string \<Rightarrow> error + DataScaler" where
  "DataScaler_init st =
     (if st = ''standard'' then Inr \<lparr>scaler = StandardScaler None, scaler_type = st\<rparr>
      else if st = ''minmax'' then Inr \<lparr>scaler = MinMaxScaler None, scaler_type = st\<rparr>
      else Inl (ValueError (''Tipus d'escalador no valid: '' @ st)))"

definition replace_inf :: "flt list list \<Rightarrow> flt list list" where
  "replace_inf rs = map (map (\<lambda>x. if x = PInf \<or> x = NInf then NaN else x)) rs"

definition fillna :: "flt \<Rightarrow> flt list list \<Rightarrow> flt list list" where
  "fillna v rs = map (map (\<lambda>x. if isna x then v else x)) rs"

text \<open>
  \<open>DataScaler.fit_transform\<close>: the scaled table, the clean table, and the object with
  its scaler fitted (the method mutates \<open>self.scaler\<close>).
\<close>

definition fit_transform :: "DataScaler \<Rightarrow> table \<Rightarrow> bool \<Rightarrow> flt \<Rightarrow>
    error + (table \<times> table \<times> DataScaler)" where
  "fit_transform self df handle_infinity fill_na =
     (let df_clean = (if handle_infinity then df\<lparr>cells := replace_inf (cells df)\<rparr> else df);
          df_clean = df_clean\<lparr>cells := fillna fill_na (cells df_clean)\<rparr>
      in case sk_fit_transform (scaler self) df_clean of
           Inl e \<Rightarrow> Inl e
         | Inr (sk, scaled_data) \<Rightarrow>
             Inr (\<lparr>columns = columns df_clean, cells = scaled_data\<rparr>, df_clean,
                  self\<lparr>scaler := sk\<rparr>))"

definition transform_scaler :: "DataScaler \<Rightarrow> table \<Rightarrow> bool \<Rightarrow> flt \<Rightarrow> error + table" where
  "transform_scaler self df handle_infinity fill_na =
     (let df_clean = (if handle_infinity then df\<lparr>cells := replace_inf (cells df)\<rparr> else df);
          df_clean = df_clean\<lparr>cells := fillna fill_na (cells df_clean)\<rparr>
      in case sk_transform (scaler self) df_clean of
           Inl e \<Rightarrow> Inl e
         | Inr scaled_data \<Rightarrow> Inr \<lparr>columns = columns df_clean, cells = scaled_data\<rparr>)"

definition inverse_transform :: "DataScaler \<Rightarrow> table \<Rightarrow> error + table" where
  "inverse_transform self df_scaled =
     (case sk_inverse_transform (scaler self) df_scaled of
        Inl e \<Rightarrow> Inl e
      | Inr original_data \<Rightarrow> Inr \<lparr>columns = columns df_scaled, cells = original_data\<rparr>)"

section \<open>Data frames of game rows\<close>

text \<open>
  A row of the team-game table carries its two identifiers and its numeric cells by column
  name; a row of the player-game table carries the player's identifier and name as well.
  The identifying columns are always present (they are fields); a numeric column is
  present when the frame lists its name, and the code's accesses to a numeric column that
  is not listed raise KeyError (carrying the first missing name).
\<close>

record base_row =
  match_feb_id :: int
  team_feb_id :: int
  vals :: "string \<Rightarrow> flt"

record player_row = base_row +
  player_feb_id :: int
  player_name :: string

record 'r frame =
  fcolumns :: "string list"
  rows :: "'r list"

text \<open>\<open>df[name] = ...\<close>: the column is overwritten, or appended when it is new.\<close>

definition set_col :: "string \<Rightarrow> ('a base_row_scheme \<Rightarrow> flt) \<Rightarrow>
    'a base_row_scheme frame \<Rightarrow> 'a base_row_scheme frame" where
  "set_col name f df =
     \<lparr>fcolumns = (if name \<in> set (fcolumns df) then fcolumns df else fcolumns df @ [name]),
      rows = map (\<lambda>r. r\<lparr>vals := (vals r)(name := f r)\<rparr>) (rows df)\<rparr>"

text \<open>
  An assignment whose right-hand side reads the columns \<open>needed\<close>, in that order.
\<close>

definition assign :: "string \<Rightarrow> string list \<Rightarrow> ('a base_row_scheme \<Rightarrow> flt) \<Rightarrow>
    'a base_row_scheme frame \<Rightarrow> error + 'a base_row_scheme frame" where
  "assign name needed f df =
     (case find (\<lambda>c. c \<notin> set (fcolumns df)) needed of
        Some c \<Rightarrow> Inl (KeyError c)
      | None \<Rightarrow> Inr (set_col name f df))"

definition bind_err :: "error + 'a \<Rightarrow> ('a \<Rightarrow> error + 'b) \<Rightarrow> error + 'b" where
  "bind_err m f = (case m of Inl e \<Rightarrow> Inl e | Inr x \<Rightarrow> f x)"

fun map_err :: "('a \<Rightarrow> error + 'b) \<Rightarrow> 'a list \<Rightarrow> error + 'b list" where
  "map_err f [] = Inr []"
| "map_err f (x # xs) =
     (case f x of Inl e \<Rightarrow> Inl e
      | Inr y \<Rightarrow> (case map_err f xs of Inl e \<Rightarrow> Inl e | Inr ys \<Rightarrow> Inr (y # ys)))"

text \<open>\<open>Series.unique()\<close>: the distinct values in the order of their first appearance.\<close>

fun unique :: "'a list \<Rightarrow> 'a list" where
  "unique [] = []"
| "unique (x # xs) = x # filter (\<lambda>y. y \<noteq> x) (unique xs)"

text \<open>The keys of \<open>groupby\<close>: the distinct values in ascending order.\<close>

definition group_keys :: "int list \<Rightarrow> int list" where
  "group_keys ks = sort (remdups ks)"

section \<open>Configuration (config.py)\<close>

definition MIN_GAMES_THRESHOLD :: int where "MIN_GAMES_THRESHOLD = 5"
definition MINUTES_NORMALIZATION :: nat where "MINUTES_NORMALIZATION = 36"
definition FREE_THROW_POSSESSION_FACTOR :: flt where "FREE_THROW_POSSESSION_FACTOR = Fin 0.44"
definition EFFICIENCY_MULTIPLIER :: flt where "EFFICIENCY_MULTIPLIER = Fin 100"
definition SCALER_TYPE :: string where "SCALER_TYPE = ''standard''"
definition HANDLE_INFINITY :: bool where "HANDLE_INFINITY = True"
definition FILL_NA_VALUE :: flt where "FILL_NA_VALUE = Fin 0"

definition STATS_TO_NORMALIZE :: "string list" where
  "STATS_TO_NORMALIZE = [''pts'', ''ast'', ''trb'', ''stl'', ''blk'', ''tov'',
     ''fga'', ''fgm'', ''3pa'', ''3pm'', ''2pa'', ''2pm'', ''fta'', ''ftm'']"

definition INTERIOR_ZONES_MADE :: "string list" where
  "INTERIOR_ZONES_MADE = [''rc_pc_m'', ''rc_pl_m'', ''rc_pr_m'', ''rc_mbl_m'', ''rc_mbr_m'']"

definition INTERIOR_ZONES_ATTEMPTED :: "string list" where
  "INTERIOR_ZONES_ATTEMPTED = [''rc_pc_a'', ''rc_pl_a'', ''rc_pr_a'', ''rc_mbl_a'', ''rc_mbr_a'']"

definition EXTERIOR_ZONES_MADE :: "string list" where
  "EXTERIOR_ZONES_MADE = [''rc_mel_m'', ''rc_mer_m'', ''rc_c3l_m'', ''rc_c3r_m'',
     ''rc_ce3l_m'', ''rc_ce3r_m'', ''rc_e3l_m'', ''rc_e3r_m'']"

definition EXTERIOR_ZONES_ATTEMPTED :: "string list" where
  "EXTERIOR_ZONES_ATTEMPTED = [''rc_mel_a'', ''rc_mer_a'', ''rc_c3l_a'', ''rc_c3r_a'',
     ''rc_ce3l_a'', ''rc_ce3r_a'', ''rc_e3l_a'', ''rc_e3r_a'']"

definition FEATURES_FOR_CLUSTERING :: "string list" where
  "FEATURES_FOR_CLUSTERING = [''pts_per36'', ''ast_per36'', ''trb_per36'', ''stl_per36'',
     ''blk_per36'', ''tov_per36'', ''fga_per36'', ''3pa_per36'', ''2pa_per36'',
     ''fg2_pct'', ''fg3_pct'', ''ft_pct'', ''usage_2p'', ''usage_3p'',
     ''oer'', ''der'', ''true_shooting_pct'', ''orb'', ''drb'', ''pf'']"

definition FEATURES_FOR_EDA :: "string list" where
  "FEATURES_FOR_EDA = [''interior_pct'', ''interior_freq'', ''exterior_pct'', ''exterior_freq'']"

section \<open>Cleaning (data_processing/data_cleaner.py)\<close>

definition filter_by_minutes :: "'a base_row_scheme frame \<Rightarrow> flt \<Rightarrow>
    error + 'a base_row_scheme frame" where
  "filter_by_minutes df min_minutes =
     (if ''minutes'' \<notin> set (fcolumns df) then Inl (KeyError ''minutes'')
      else Inr (df\<lparr>rows := filter (\<lambda>r. fgt (vals r ''minutes'') min_minutes) (rows df)\<rparr>))"

definition filter_by_games_played :: "'a player_row_scheme frame \<Rightarrow> int \<Rightarrow>
    'a player_row_scheme frame" where
  "filter_by_games_played df min_games =
     (let games_per_player =
            map (\<lambda>k. (k, length (filter (\<lambda>r. player_feb_id r = k) (rows df))))
              (group_keys (map player_feb_id (rows df)));
          valid_players = map fst (filter (\<lambda>(k, num_games). min_games \<le> int num_games)
              games_per_player)
      in df\<lparr>rows := filter (\<lambda>r. player_feb_id r \<in> set valid_players) (rows df)\<rparr>)"

section \<open>Feature engineering (data_processing/feature_engineer.py)\<close>

text \<open>\<open>np.where(cond, a, 0)\<close>, cell by cell.\<close>

definition np_where :: "bool \<Rightarrow> flt \<Rightarrow> flt \<Rightarrow> flt" where
  "np_where c a b = (if c then a else b)"

definition convert_seconds_to_minutes :: "'a base_row_scheme frame \<Rightarrow>
    error + 'a base_row_scheme frame" where
  "convert_seconds_to_minutes df =
     assign ''minutes_played'' [''minutes''] (\<lambda>r. fdiv (vals r ''minutes'') (Fin 60)) df"

text \<open>\<open>str(n)\<close> of a natural number, for the name of a normalised column.\<close>

definition digit_char :: "nat \<Rightarrow> char" where
  "digit_char d = char_of (48 + d)"

fun str_nat :: "nat \<Rightarrow> string" where
  "str_nat n = (if n < 10 then [digit_char n] else str_nat (n div 10) @ [digit_char (n mod 10)])"

fun normalize_per_minutes :: "'a base_row_scheme frame \<Rightarrow> string list \<Rightarrow> string \<Rightarrow> nat \<Rightarrow>
    error + 'a base_row_scheme frame" where
  "normalize_per_minutes df [] minutes_col target_minutes = Inr df"
| "normalize_per_minutes df (stat # stats_cols) minutes_col target_minutes =
     (if stat \<in> set (fcolumns df)
      then bind_err
             (assign (stat @ ''_per'' @ str_nat target_minutes) [stat, minutes_col]
                (\<lambda>r. fmul (fdiv (vals r stat) (vals r minutes_col)) (Fin (real target_minutes))) df)
             (\<lambda>df'. normalize_per_minutes df' stats_cols minutes_col target_minutes)
      else normalize_per_minutes df stats_cols minutes_col target_minutes)"

definition ratio_or_zero :: "string \<Rightarrow> string \<Rightarrow> 'a base_row_scheme \<Rightarrow> flt" where
  "ratio_or_zero num den r =
     np_where (fgt (vals r den) (Fin 0)) (fdiv (vals r num) (vals r den)) (Fin 0)"

definition calculate_shooting_percentages :: "'a base_row_scheme frame \<Rightarrow>
    error + 'a base_row_scheme frame" where
  "calculate_shooting_percentages df =
     bind_err (assign ''fg2_pct'' [''2pa'', ''2pm''] (ratio_or_zero ''2pm'' ''2pa'') df) (\<lambda>df.
     bind_err (assign ''fg3_pct'' [''3pa'', ''3pm''] (ratio_or_zero ''3pm'' ''3pa'') df) (\<lambda>df.
     assign ''ft_pct'' [''fta'', ''ftm''] (ratio_or_zero ''ftm'' ''fta'') df))"

definition calculate_usage_rates :: "'a base_row_scheme frame \<Rightarrow>
    error + 'a base_row_scheme frame" where
  "calculate_usage_rates df =
     bind_err (assign ''usage_2p'' [''fga'', ''2pa''] (ratio_or_zero ''2pa'' ''fga'') df) (\<lambda>df.
     assign ''usage_3p'' [''fga'', ''3pa''] (ratio_or_zero ''3pa'' ''fga'') df)"

text \<open>\<open>df[zones].sum(axis=1)\<close>: the sum along a row, missing values skipped.\<close>

definition row_sum :: "string list \<Rightarrow> 'a base_row_scheme \<Rightarrow> flt" where
  "row_sum zones r = fsum (map (vals r) zones)"

definition zone_pct :: "string list \<Rightarrow> string list \<Rightarrow> 'a base_row_scheme \<Rightarrow> flt" where
  "zone_pct zones_made zones_attempted r =
     np_where (fgt (row_sum zones_attempted r) (Fin 0))
       (fdiv (row_sum zones_made r) (row_sum zones_attempted r)) (Fin 0)"

definition zone_freq :: "string list \<Rightarrow> 'a base_row_scheme \<Rightarrow> flt" where
  "zone_freq zones_attempted r =
     np_where (fgt (vals r ''fga'') (Fin 0))
       (fdiv (row_sum zones_attempted r) (vals r ''fga'')) (Fin 0)"

definition calculate_interior_stats :: "'a base_row_scheme frame \<Rightarrow> string list \<Rightarrow>
    string list \<Rightarrow> error + 'a base_row_scheme frame" where
  "calculate_interior_stats df zones_made zones_attempted =
     bind_err (assign ''interior_pct'' (zones_made @ zones_attempted)
                 (zone_pct zones_made zones_attempted) df) (\<lambda>df'.
     assign ''interior_freq'' [''fga''] (zone_freq zones_attempted) df')"

definition calculate_exterior_stats :: "'a base_row_scheme frame \<Rightarrow> string list \<Rightarrow>
    string list \<Rightarrow> error + 'a base_row_scheme frame" where
  "calculate_exterior_stats df zones_made zones_attempted =
     bind_err (assign ''exterior_pct'' (zones_made @ zones_attempted)
                 (zone_pct zones_made zones_attempted) df) (\<lambda>df'.
     assign ''exterior_freq'' [''fga''] (zone_freq zones_attempted) df')"

text \<open>
  The possession estimate \<open>fga + (factor * fta) - orb + tov\<close>, evaluated left to right.
  The same expression gives \<open>team_possessions\<close> in the pipeline.
\<close>

definition possessions_of :: "'a base_row_scheme \<Rightarrow> flt" where
  "possessions_of r =
     fadd (fsub (fadd (vals r ''fga'') (fmul FREE_THROW_POSSESSION_FACTOR (vals r ''fta'')))
                (vals r ''orb''))
          (vals r ''tov'')"

definition calculate_possessions :: "'a base_row_scheme frame \<Rightarrow>
    error + 'a base_row_scheme frame" where
  "calculate_possessions df =
     assign ''possessions'' [''fga'', ''fta'', ''orb'', ''tov''] possessions_of df"

definition oer_of :: "'a base_row_scheme \<Rightarrow> flt" where
  "oer_of r =
     np_where (fgt (vals r ''possessions'') (Fin 0))
       (fmul EFFICIENCY_MULTIPLIER (fdiv (vals r ''pts'') (vals r ''possessions''))) (Fin 0)"

definition calculate_oer :: "'a base_row_scheme frame \<Rightarrow> error + 'a base_row_scheme frame" where
  "calculate_oer df = assign ''oer'' [''possessions'', ''pts''] oer_of df"

definition true_shooting_attempts :: "'a base_row_scheme \<Rightarrow> flt" where
  "true_shooting_attempts r =
     fmul (Fin 2) (fadd (vals r ''fga'') (fmul FREE_THROW_POSSESSION_FACTOR (vals r ''fta'')))"

definition calculate_true_shooting_pct :: "'a base_row_scheme frame \<Rightarrow>
    error + 'a base_row_scheme frame" where
  "calculate_true_shooting_pct df =
     assign ''true_shooting_pct'' [''fga'', ''fta'', ''pts'']
       (\<lambda>r. np_where (fgt (true_shooting_attempts r) (Fin 0))
               (fdiv (vals r ''pts'') (true_shooting_attempts r)) (Fin 0)) df"

definition calculate_der :: "'a base_row_scheme frame \<Rightarrow> error + 'a base_row_scheme frame" where
  "calculate_der df =
     assign ''der'' [''opponent_possessions'', ''opponent_pts'']
       (\<lambda>r. np_where (fgt (vals r ''opponent_possessions'') (Fin 0))
               (fmul EFFICIENCY_MULTIPLIER
                  (fdiv (vals r ''opponent_pts'') (vals r ''opponent_possessions''))) (Fin 0)) df"

definition apply_all_transformations :: "'a base_row_scheme frame \<Rightarrow> string list \<Rightarrow>
    string list \<Rightarrow> string list \<Rightarrow> string list \<Rightarrow> string list \<Rightarrow> nat \<Rightarrow>
    error + 'a base_row_scheme frame" where
  "apply_all_transformations df stats_to_normalize interior_zones_made interior_zones_attempted
      exterior_zones_made exterior_zones_attempted target_minutes =
     bind_err (convert_seconds_to_minutes df) (\<lambda>df.
     bind_err (normalize_per_minutes df stats_to_normalize ''minutes_played'' target_minutes) (\<lambda>df.
     bind_err (calculate_shooting_percentages df) (\<lambda>df.
     bind_err (calculate_usage_rates df) (\<lambda>df.
     bind_err (calculate_interior_stats df interior_zones_made interior_zones_attempted) (\<lambda>df.
     bind_err (if exterior_zones_made \<noteq> [] \<and> exterior_zones_attempted \<noteq> []
               then calculate_exterior_stats df exterior_zones_made exterior_zones_attempted
               else Inr df) (\<lambda>df.
     bind_err (calculate_possessions df) (\<lambda>df.
     bind_err (calculate_oer df) (\<lambda>df.
     bind_err (calculate_true_shooting_pct df) (\<lambda>df.
     if ''opponent_possessions'' \<in> set (fcolumns df) \<and> ''opponent_pts'' \<in> set (fcolumns df)
     then calculate_der df else Inr df)))))))))"

section \<open>Aggregation (data_processing/data_aggregator.py)\<close>

record agg_row =
  agg_player_feb_id :: int
  agg_player_name :: string
  agg_vals :: "string \<Rightarrow> flt"

text \<open>
  The inner function \<open>weighted_mean\<close> of \<open>aggregate_by_player\<close>, for one group: the
  name of the group's first row (\<open>iloc[0]\<close>), then for each feature that is a column,
  in the order of the list, the sum of value times minutes divided by the total minutes,
  and last the total minutes, all stored in a dictionary by column name. \<open>cols\<close> are the
  columns of the frame.
\<close>

definition weighted_mean :: "string list \<Rightarrow> 'a player_row_scheme list \<Rightarrow> string list \<Rightarrow>
    error + (string \<times> (string \<Rightarrow> flt))" where
  "weighted_mean cols grp features =
     (case grp of
        [] \<Rightarrow> Inl IndexError
      | g # rest \<Rightarrow>
          (let total_minutes = fsum (map (\<lambda>r. vals r ''minutes_played'') grp);
               result = foldl (\<lambda>res col.
                   if col \<in> set cols
                   then res(col := fdiv (fsum (map (\<lambda>r. fmul (vals r col) (vals r ''minutes_played''))
                                                grp)) total_minutes)
                   else res) (\<lambda>c. NaN) features
           in Inr (player_name g, result(''minutes_played'' := total_minutes))))"

text \<open>The simple mode for one group: \<open>mean\<close> per feature, \<open>first\<close> name, \<open>sum\<close> of minutes.\<close>

definition simple_mean :: "string list \<Rightarrow> 'a player_row_scheme list \<Rightarrow> string list \<Rightarrow>
    string \<times> (string \<Rightarrow> flt)" where
  "simple_mean cols grp features =
     (let result = foldl (\<lambda>res col.
              if col \<in> set cols then res(col := fmean (map (\<lambda>r. vals r col) grp)) else res)
            (\<lambda>c. NaN) features;
          result = (if ''minutes_played'' \<in> set cols
                    then result(''minutes_played'' := fsum (map (\<lambda>r. vals r ''minutes_played'') grp))
                    else result)
      in (case grp of [] \<Rightarrow> [] | g # rest \<Rightarrow> player_name g, result))"

definition group_of :: "'a player_row_scheme frame \<Rightarrow> int \<Rightarrow> 'a player_row_scheme list" where
  "group_of df k = filter (\<lambda>r. player_feb_id r = k) (rows df)"

definition aggregate_by_player :: "'a player_row_scheme frame \<Rightarrow> string list \<Rightarrow> bool \<Rightarrow>
    error + agg_row frame" where
  "aggregate_by_player df features weighted =
     (let keys = group_keys (map player_feb_id (rows df));
          present = filter (\<lambda>c. c \<in> set (fcolumns df)) features
      in if \<not> weighted \<or> ''minutes_played'' \<notin> set (fcolumns df)
         then Inr \<lparr>fcolumns = unique (present @
                      (if ''minutes_played'' \<in> set (fcolumns df) then [''minutes_played''] else [])),
                   rows = map (\<lambda>k. case simple_mean (fcolumns df) (group_of df k) features of
                                  (nm, vs) \<Rightarrow> \<lparr>agg_player_feb_id = k, agg_player_name = nm,
                                                agg_vals = vs\<rparr>) keys\<rparr>
         else bind_err
                (map_err (\<lambda>k. case weighted_mean (fcolumns df) (group_of df k) features of
                                 Inl e \<Rightarrow> Inl e
                               | Inr (nm, vs) \<Rightarrow> Inr \<lparr>agg_player_feb_id = k, agg_player_name = nm,
                                                      agg_vals = vs\<rparr>) keys)
                (\<lambda>rs. Inr \<lparr>fcolumns = unique (present @ [''minutes_played'']), rows = rs\<rparr>))"

section \<open>The pipeline (pipeline/etl_pipeline.py)\<close>

record opponent_link =
  o_match_feb_id :: int
  o_team_feb_id :: int
  o_opponent_possessions :: flt
  o_opponent_pts :: flt

text \<open>
  The body of the loop over the matches of the player table: the team rows of the match;
  when there are exactly two, for each of them the first row of the other team
  (\<open>iloc[0]\<close>, IndexError when there is none) gives the link.
\<close>

definition links_of_match :: "base_row frame \<Rightarrow> int \<Rightarrow> error + opponent_link list" where
  "links_of_match df_teams match_id =
     (let teams_in_match = filter (\<lambda>t. match_feb_id t = match_id) (rows df_teams)
      in if length teams_in_match = 2
         then map_err (\<lambda>team_row.
                case filter (\<lambda>t. team_feb_id t \<noteq> team_feb_id team_row) teams_in_match of
                  [] \<Rightarrow> Inl IndexError
                | opponent_row # rest \<Rightarrow>
                    if ''team_possessions'' \<notin> set (fcolumns df_teams)
                    then Inl (KeyError ''team_possessions'')
                    else if ''pts'' \<notin> set (fcolumns df_teams) then Inl (KeyError ''pts'')
                    else Inr \<lparr>o_match_feb_id = match_id,
                              o_team_feb_id = team_feb_id team_row,
                              o_opponent_possessions = vals opponent_row ''team_possessions'',
                              o_opponent_pts = vals opponent_row ''pts''\<rparr>) teams_in_match
         else Inr [])"

definition opponent_data :: "'a player_row_scheme frame \<Rightarrow> base_row frame \<Rightarrow>
    error + opponent_link list" where
  "opponent_data df df_teams =
     bind_err (map_err (links_of_match df_teams) (unique (map match_feb_id (rows df))))
       (\<lambda>ls. Inr (concat ls))"

text \<open>
  \<open>df.merge(df_opponents, on=[match_feb_id, team_feb_id], how=left)\<close>. A frame built
  from an empty list of dictionaries has no column, and merging on keys it lacks raises
  KeyError. Otherwise every player row is kept, in order, once per link with its two keys
  (once with both new cells missing when there is none). A column of the player table
  that already bears one of the two new names gets the suffix \<open>_x\<close> and the new
  column the suffix \<open>_y\<close>.
\<close>

definition rename_col :: "string \<Rightarrow> string \<Rightarrow> 'a base_row_scheme frame \<Rightarrow>
    'a base_row_scheme frame" where
  "rename_col old new df =
     \<lparr>fcolumns = map (\<lambda>c. if c = old then new else c) (fcolumns df),
      rows = map (\<lambda>r. r\<lparr>vals := (\<lambda>c. if c = new then vals r old else vals r c)\<rparr>) (rows df)\<rparr>"

definition merged_name :: "string list \<Rightarrow> string \<Rightarrow> string" where
  "merged_name cols name = (if name \<in> set cols then name @ ''_y'' else name)"

definition suffix_left :: "string \<Rightarrow> 'a base_row_scheme frame \<Rightarrow> 'a base_row_scheme frame" where
  "suffix_left name df = (if name \<in> set (fcolumns df) then rename_col name (name @ ''_x'') df else df)"

definition merge_opponents :: "'a player_row_scheme frame \<Rightarrow> opponent_link list \<Rightarrow>
    error + 'a player_row_scheme frame" where
  "merge_opponents df opponents =
     (if opponents = [] then Inl (KeyError ''match_feb_id'')
      else
        (let poss = merged_name (fcolumns df) ''opponent_possessions'';
             pts = merged_name (fcolumns df) ''opponent_pts'';
             left = suffix_left ''opponent_pts'' (suffix_left ''opponent_possessions'' df)
         in Inr \<lparr>fcolumns = fcolumns left @ [poss, pts],
                 rows = concat (map (\<lambda>r.
                   case filter (\<lambda>l. o_match_feb_id l = match_feb_id r \<and>
                                     o_team_feb_id l = team_feb_id r) opponents of
                     [] \<Rightarrow> [r\<lparr>vals := (vals r)(poss := NaN, pts := NaN)\<rparr>]
                   | ls \<Rightarrow> map (\<lambda>l. r\<lparr>vals := (vals r)(poss := o_opponent_possessions l,
                                                         pts := o_opponent_pts l)\<rparr>) ls)
                   (rows left))\<rparr>))"

text \<open>\<open>df_aggregated[features]\<close>: the numeric table of the listed columns.\<close>

definition select_features :: "agg_row frame \<Rightarrow> string list \<Rightarrow> error + table" where
  "select_features df features =
     (case find (\<lambda>c. c \<notin> set (fcolumns df)) features of
        Some c \<Rightarrow> Inl (KeyError c)
      | None \<Rightarrow> Inr \<lparr>columns = features, cells = map (\<lambda>r. map (agg_vals r) features) (rows df)\<rparr>)"

record transform_result =
  player_info :: "(int \<times> string) list"
  features_raw :: table
  features_scaled :: table
  aggregated :: "agg_row frame"

text \<open>
  The opponent resolution of \<open>ETLPipeline.transform\<close>: the possessions of the teams,
  the links, the merge.
\<close>

definition resolve_opponents :: "player_row frame \<Rightarrow> base_row frame \<Rightarrow>
    error + player_row frame" where
  "resolve_opponents df df_teams =
     bind_err (assign ''team_possessions'' [''fga'', ''fta'', ''orb'', ''tov''] possessions_of df_teams)
       (\<lambda>df_teams.
     bind_err (opponent_data df df_teams) (\<lambda>opponents.
     merge_opponents df opponents))"

definition features_for_clustering :: "string list \<Rightarrow> string list" where
  "features_for_clustering cols =
     (if ''opponent_possessions'' \<in> set cols \<and> ''opponent_pts'' \<in> set cols \<and> ''der'' \<in> set cols
      then (if ''der'' \<notin> set FEATURES_FOR_CLUSTERING then FEATURES_FOR_CLUSTERING @ [''der'']
            else FEATURES_FOR_CLUSTERING)
      else filter (\<lambda>f. f \<noteq> ''der'') FEATURES_FOR_CLUSTERING)"

definition all_features_to_aggregate :: "string list \<Rightarrow> string list" where
  "all_features_to_aggregate cols =
     foldl (\<lambda>acc f. if f \<notin> set acc then acc @ [f] else acc) (features_for_clustering cols)
       (filter (\<lambda>f. f \<in> set cols) FEATURES_FOR_EDA)"

text \<open>
  \<open>ETLPipeline.transform\<close> up to the aggregated table, with the threshold of the
  configuration as a parameter.
\<close>

definition transform_aggregated :: "int \<Rightarrow> player_row frame \<Rightarrow> base_row frame \<Rightarrow>
    error + agg_row frame" where
  "transform_aggregated min_games players teams =
     bind_err (resolve_opponents players teams) (\<lambda>df.
     bind_err (apply_all_transformations (filter_by_games_played df min_games)
                 STATS_TO_NORMALIZE INTERIOR_ZONES_MADE INTERIOR_ZONES_ATTEMPTED
                 EXTERIOR_ZONES_MADE EXTERIOR_ZONES_ATTEMPTED MINUTES_NORMALIZATION) (\<lambda>df.
     aggregate_by_player df (all_features_to_aggregate (fcolumns df)) True))"

definition transform_with :: "int \<Rightarrow> DataScaler \<Rightarrow> player_row frame \<Rightarrow> base_row frame \<Rightarrow>
    error + transform_result" where
  "transform_with min_games self_scaler players teams =
     bind_err (resolve_opponents players teams) (\<lambda>df.
     bind_err (apply_all_transformations (filter_by_games_played df min_games)
                 STATS_TO_NORMALIZE INTERIOR_ZONES_MADE INTERIOR_ZONES_ATTEMPTED
                 EXTERIOR_ZONES_MADE EXTERIOR_ZONES_ATTEMPTED MINUTES_NORMALIZATION) (\<lambda>df.
     bind_err (aggregate_by_player df (all_features_to_aggregate (fcolumns df)) True)
       (\<lambda>df_aggregated.
     bind_err (select_features df_aggregated (features_for_clustering (fcolumns df))) (\<lambda>features.
     bind_err (fit_transform self_scaler features HANDLE_INFINITY FILL_NA_VALUE)
       (\<lambda>(features_scaled, features_clean, fitted).
     Inr \<lparr>player_info = map (\<lambda>r. (agg_player_feb_id r, agg_player_name r)) (rows df_aggregated),
          features_raw = features_clean,
          features_scaled = features_scaled,
          aggregated = df_aggregated\<rparr>)))))"

definition transform :: "player_row frame \<Rightarrow> base_row frame \<Rightarrow> error + transform_result" where
  "transform players teams =
     (case DataScaler_init SCALER_TYPE of
        Inl e \<Rightarrow> Inl e
      | Inr self_scaler \<Rightarrow> transform_with MIN_GAMES_THRESHOLD self_scaler players teams)"

section \<open>Notions used in the statements and proofs\<close>

text \<open>
  The division policy in the words of the specification: the ratio when the denominator
  is positive, 0 when the denominator is 0 whatever the numerator, and a finite number
  whenever both inputs are finite.
\<close>

definition zero_safe_ratio :: "flt \<Rightarrow> flt \<Rightarrow> flt \<Rightarrow> bool" where
  "zero_safe_ratio num den v =
     ((den = Fin 0 \<longrightarrow> v = Fin 0) \<and>
      (\<forall>n d. num = Fin n \<and> den = Fin d \<and> 0 < d \<longrightarrow> v = Fin (n / d)) \<and>
      (is_finite num \<and> is_finite den \<longrightarrow> is_finite v))"

text \<open>Names for the two quantities \<open>weighted_mean\<close> computes for a group.\<close>

definition wm_total :: "'a player_row_scheme list \<Rightarrow> flt" where
  "wm_total g = fsum (map (\<lambda>r. vals r ''minutes_played'') g)"

definition wm_value :: "'a player_row_scheme list \<Rightarrow> string \<Rightarrow> flt" where
  "wm_value g col =
     fdiv (fsum (map (\<lambda>r. fmul (vals r col) (vals r ''minutes_played'')) g)) (wm_total g)"

text \<open>The rows of the weighted aggregate, group by group.\<close>

definition weighted_rows :: "'a player_row_scheme frame \<Rightarrow> string list \<Rightarrow> agg_row list" where
  "weighted_rows df features =
     map (\<lambda>k. \<lparr>agg_player_feb_id = k,
               agg_player_name = player_name (hd (group_of df k)),
               agg_vals = (\<lambda>c. if c = ''minutes_played'' then wm_total (group_of df k)
                   else if c \<in> set features \<and> c \<in> set (fcolumns df)
                        then wm_value (group_of df k) c else NaN)\<rparr>)
       (group_keys (map player_feb_id (rows df)))"

text \<open>The rows of the simple aggregate, group by group.\<close>

definition simple_rows :: "'a player_row_scheme frame \<Rightarrow> string list \<Rightarrow> agg_row list" where
  "simple_rows df features =
     map (\<lambda>k. \<lparr>agg_player_feb_id = k,
               agg_player_name = fst (simple_mean (fcolumns df) (group_of df k) features),
               agg_vals = snd (simple_mean (fcolumns df) (group_of df k) features)\<rparr>)
       (group_keys (map player_feb_id (rows df)))"

text \<open>
  A step that works row by row: whether it fails and which columns it yields depend on
  the columns of the frame alone, and it only rewrites the numeric cells of each row.
\<close>

definition rowwise :: "('a base_row_scheme frame \<Rightarrow> error + 'a base_row_scheme frame) \<Rightarrow> bool" where
  "rowwise step =
     (\<exists>E. \<forall>df. step df =
        (case E (fcolumns df) of
           Inl e \<Rightarrow> Inl e
         | Inr (C, G) \<Rightarrow> Inr \<lparr>fcolumns = C, rows = map (\<lambda>r. r\<lparr>vals := G r\<rparr>) (rows df)\<rparr>))"

text \<open>The number of game rows of a player.\<close>

definition games_of :: "'a player_row_scheme frame \<Rightarrow> int \<Rightarrow> int" where
  "games_of df p = int (length (filter (\<lambda>r. player_feb_id r = p) (rows df)))"

text \<open>The two keys of a link, on which the merge joins.\<close>

definition link_key :: "opponent_link \<Rightarrow> int \<times> int" where
  "link_key l = (o_match_feb_id l, o_team_feb_id l)"

section \<open>Example inputs\<close>

text \<open>A feature table with an infinite and a missing cell, and the standard scaler.\<close>

definition ex_features :: table where
  "ex_features = \<lparr>columns = [''pts_per36'', ''fg2_pct''], cells = [[Fin 1, PInf], [Fin 3, NaN]]\<rparr>"

definition ex_scaler :: DataScaler where
  "ex_scaler = \<lparr>scaler = StandardScaler None, scaler_type = ''standard''\<rparr>"

text \<open>A row given by its identifiers and a list of named cells; other cells are missing.\<close>

definition cells_of :: "(string \<times> real) list \<Rightarrow> string \<Rightarrow> flt" where
  "cells_of al c = (case map_of al c of Some x \<Rightarrow> Fin x | None \<Rightarrow> NaN)"

definition mk_player :: "int \<Rightarrow> string \<Rightarrow> int \<Rightarrow> int \<Rightarrow> (string \<times> real) list \<Rightarrow> player_row" where
  "mk_player pid nm team match al =
     \<lparr>match_feb_id = match, team_feb_id = team, vals = cells_of al,
      player_feb_id = pid, player_name = nm\<rparr>"

definition mk_team :: "int \<Rightarrow> int \<Rightarrow> (string \<times> real) list \<Rightarrow> base_row" where
  "mk_team team match al = \<lparr>match_feb_id = match, team_feb_id = team, vals = cells_of al\<rparr>"

text \<open>Two box-score rows: the literal inputs of the specification, and a row of zeros.\<close>

definition ex_box :: "player_row frame" where
  "ex_box =
     \<lparr>fcolumns = [''pts'', ''fga'', ''fta'', ''ftm'', ''orb'', ''tov'', ''2pa'', ''2pm'', ''3pa'', ''3pm''],
      rows = [mk_player 1 ''A'' 10 1
                [(''pts'', 20), (''fga'', 10), (''fta'', 5), (''ftm'', 4), (''orb'', 2), (''tov'', 3),
                 (''2pa'', 6), (''2pm'', 3), (''3pa'', 4), (''3pm'', 1)],
              mk_player 2 ''B'' 10 1
                [(''pts'', 0), (''fga'', 0), (''fta'', 0), (''ftm'', 0), (''orb'', 0), (''tov'', 0),
                 (''2pa'', 0), (''2pm'', 0), (''3pa'', 0), (''3pm'', 0)]]\<rparr>"

text \<open>
  Game rows after feature engineering: player 1 with two games of 10 and 30 minutes,
  player 2 with a single game, player 3 with two games of equal minutes.
\<close>

definition ex_games :: "player_row frame" where
  "ex_games =
     \<lparr>fcolumns = [''minutes_played'', ''pts_per36''],
      rows = [mk_player 2 ''B'' 20 1 [(''minutes_played'', 20), (''pts_per36'', 9)],
              mk_player 1 ''A'' 10 1 [(''minutes_played'', 10), (''pts_per36'', 18)],
              mk_player 3 ''C'' 10 1 [(''minutes_played'', 25), (''pts_per36'', 8)],
              mk_player 1 ''A'' 10 2 [(''minutes_played'', 30), (''pts_per36'', 12)],
              mk_player 3 ''C'' 10 2 [(''minutes_played'', 25), (''pts_per36'', 16)]]\<rparr>"

text \<open>A single game row with no playing time.\<close>

definition ex_zero_minutes :: "player_row frame" where
  "ex_zero_minutes =
     \<lparr>fcolumns = [''minutes_played'', ''pts_per36''],
      rows = [mk_player 1 ''A'' 10 1 [(''minutes_played'', 0), (''pts_per36'', 0)]]\<rparr>"

text \<open>
  A season of two matches. Player 1 plays both for team 10; players 2 and 3 play one
  match each. The team rows are those of the specification's example: 70 points on 70
  possessions against 60 points on 65 possessions.
\<close>

definition ex_columns :: "string list" where
  "ex_columns = [''minutes'', ''pts'', ''ast'', ''trb'', ''stl'', ''blk'', ''tov'', ''fga'', ''fgm'',
     ''3pa'', ''3pm'', ''2pa'', ''2pm'', ''fta'', ''ftm'', ''orb'', ''drb'', ''pf'']
     @ INTERIOR_ZONES_MADE @ INTERIOR_ZONES_ATTEMPTED
     @ EXTERIOR_ZONES_MADE @ EXTERIOR_ZONES_ATTEMPTED"

definition ex_line :: "real \<Rightarrow> (string \<times> real) list" where
  "ex_line secs = [(''minutes'', secs), (''pts'', 20), (''ast'', 3), (''trb'', 5), (''stl'', 1),
     (''blk'', 0), (''tov'', 3), (''fga'', 10), (''fgm'', 4), (''3pa'', 4), (''3pm'', 1),
     (''2pa'', 6), (''2pm'', 3), (''fta'', 5), (''ftm'', 4), (''orb'', 2), (''drb'', 3), (''pf'', 2)]"

definition ex_players :: "player_row frame" where
  "ex_players =
     \<lparr>fcolumns = ex_columns,
      rows = [mk_player 1 ''A'' 10 1 (ex_line 600), mk_player 2 ''B'' 20 1 (ex_line 1200),
              mk_player 1 ''A'' 10 2 (ex_line 1800), mk_player 3 ''C'' 30 2 (ex_line 900)]\<rparr>"

definition ex_team_columns :: "string list" where
  "ex_team_columns = [''pts'', ''fga'', ''fta'', ''orb'', ''tov'']"

definition ex_team_a :: "(string \<times> real) list" where
  "ex_team_a = [(''pts'', 70), (''fga'', 60), (''fta'', 0), (''orb'', 0), (''tov'', 10)]"

definition ex_team_b :: "(string \<times> real) list" where
  "ex_team_b = [(''pts'', 60), (''fga'', 55), (''fta'', 0), (''orb'', 0), (''tov'', 10)]"

definition ex_teams :: "base_row frame" where
  "ex_teams =
     \<lparr>fcolumns = ex_team_columns,
      rows = [mk_team 10 1 ex_team_a, mk_team 20 1 ex_team_b,
              mk_team 10 2 ex_team_a, mk_team 30 2 ex_team_b]\<rparr>"

text \<open>One match, two players, and a team table that holds one team row of the match.\<close>

definition ex_players_one_match :: "player_row frame" where
  "ex_players_one_match =
     \<lparr>fcolumns = ex_columns,
      rows = [mk_player 1 ''A'' 10 1 (ex_line 600), mk_player 2 ''B'' 20 1 (ex_line 1200)]\<rparr>"

definition ex_teams_unpaired :: "base_row frame" where
  "ex_teams_unpaired = \<lparr>fcolumns = ex_team_columns, rows = [mk_team 10 1 ex_team_a]\<rparr>"

definition ex_teams_three :: "base_row frame" where
  "ex_teams_three =
     \<lparr>fcolumns = ex_team_columns,
      rows = [mk_team 10 1 ex_team_a, mk_team 20 1 ex_team_b, mk_team 30 1 ex_team_b]\<rparr>"

text \<open>
  Game rows with a missing cell: player 1 has two games of 10 minutes each, with 4 fouls
  in the first and no value recorded in the second; player 2 has a single game with no
  value recorded.
\<close>

definition ex_missing :: "player_row frame" where
  "ex_missing =
     \<lparr>fcolumns = [''minutes_played'', ''pf''],
      rows = [mk_player 1 ''A'' 10 1 [(''minutes_played'', 10), (''pf'', 4)],
              mk_player 1 ''A'' 10 2 [(''minutes_played'', 10)],
              mk_player 2 ''B'' 20 1 [(''minutes_played'', 20)]]\<rparr>"

section \<open>Basic facts about frames and errors\<close>

lemma assign_Inr:
  "set needed \<subseteq> set (fcolumns df) \<Longrightarrow> assign name needed f df = Inr (set_col name f df)"
  by (auto simp: assign_def find_None_iff split: option.splits)

lemma fcolumns_set_col: "set (fcolumns (set_col name f df)) = insert name (set (fcolumns df))"
  by (auto simp: set_col_def)

lemma rows_set_col:
  "rows (set_col name f df) = map (\<lambda>r. r\<lparr>vals := (vals r)(name := f r)\<rparr>) (rows df)"
  by (simp add: set_col_def)

lemma bind_err_Inr [simp]: "bind_err (Inr x) f = f x"
  by (simp add: bind_err_def)

lemma bind_err_Inl [simp]: "bind_err (Inl e) f = Inl e"
  by (simp add: bind_err_def)

section \<open>Properties of the scaler\<close>

text \<open>
  C9. Constructing the scaler succeeds for exactly the two strings \<open>standard\<close> and
  \<open>minmax\<close>; every other string gives a ValueError instead of an object, so nothing
  has been fitted (and the two objects constructed hold an unfitted scaler).
\<close>

theorem DataScaler_init_valid_iff:
  "((st = ''standard'' \<or> st = ''minmax'') =
      (\<exists>ds. DataScaler_init st = Inr ds \<and> scaler_type ds = st \<and>
            (scaler ds = StandardScaler None \<or> scaler ds = MinMaxScaler None))) \<and>
   ((st \<noteq> ''standard'' \<and> st \<noteq> ''minmax'') = (\<exists>m. DataScaler_init st = Inl (ValueError m)))"
  by (auto simp: DataScaler_init_def)
lemma clean_cells_eq:
  "fillna v (replace_inf rs) = map (map (\<lambda>x. if is_finite x then x else v)) rs"
proof -
  have "(if isna (if x = PInf \<or> x = NInf then NaN else x) then v
         else (if x = PInf \<or> x = NInf then NaN else x)) = (if is_finite x then x else v)" for x
    by (cases x) simp_all
  then show ?thesis
    unfolding fillna_def replace_inf_def by (simp add: comp_def)
qed

lemma finite_values_mem: "Fin a \<in> set xs \<Longrightarrow> finite_values xs \<noteq> []"
  by (induction xs rule: finite_values.induct) auto

lemma standard_stats_good:
  assumes "Fin a \<in> set col"
  shows "\<exists>m s. standard_stats col = (Fin m, Fin s) \<and> s \<noteq> 0"
  using finite_values_mem[OF assms]
  by (simp add: standard_stats_def Let_def handle_zeros_in_scale_def)

lemma standard_cell_roundtrip:
  assumes "x \<noteq> PInf" "x \<noteq> NInf" "\<And>a. x = Fin a \<Longrightarrow> \<exists>m s. p = (Fin m, Fin s) \<and> s \<noteq> 0"
  shows "standard_backward (standard_forward x p) p = x \<and>
         standard_forward x p \<noteq> PInf \<and> standard_forward x p \<noteq> NInf"
proof (cases x)
  case (Fin a)
  then obtain m s where p: "p = (Fin m, Fin s)" "s \<noteq> 0" using assms(3) by blast
  with Fin show ?thesis
    by (simp add: standard_backward_def standard_forward_def fsub_def)
next
  case NaN
  then show ?thesis by (simp add: standard_backward_def standard_forward_def fsub_def)
qed (use assms in auto)


lemma not_list_ex_nthI: "(\<forall>i<length xs. \<not> P (xs ! i)) \<Longrightarrow> \<not> list_ex P xs"
  by (auto simp: list_ex_iff in_set_conv_nth)

lemma standard_row_roundtrip:
  assumes len: "length r = n" and mem: "r \<in> set rs"
    and noinf: "\<not> list_ex (\<lambda>x. x = PInf \<or> x = NInf) r"
    and ps: "ps = map (\<lambda>j. standard_stats (column rs j)) [0..<n]"
  shows "map2 standard_backward (map2 standard_forward r ps) ps = r \<and>
         \<not> list_ex (\<lambda>x. x = PInf \<or> x = NInf) (map2 standard_forward r ps) \<and>
         length (map2 standard_forward r ps) = n"
proof -
  have cell: "standard_backward (standard_forward (r ! i) (ps ! i)) (ps ! i) = r ! i \<and>
         standard_forward (r ! i) (ps ! i) \<noteq> PInf \<and> standard_forward (r ! i) (ps ! i) \<noteq> NInf"
    if i: "i < n" for i
  proof (rule standard_cell_roundtrip)
    have "r ! i \<in> set r" using i len by simp
    then show "r ! i \<noteq> PInf" "r ! i \<noteq> NInf" using noinf by (auto simp: list_ex_iff)
  next
    fix a assume "r ! i = Fin a"
    then have "Fin a \<in> set (column rs i)" using mem by (force simp: column_def)
    moreover have "ps ! i = standard_stats (column rs i)" using i ps by simp
    ultimately show "\<exists>m s. ps ! i = (Fin m, Fin s) \<and> s \<noteq> 0"
      using standard_stats_good by simp
  qed
  have lps: "length ps = n" using ps by simp
  have l1: "length (map2 standard_forward r ps) = n" using len lps by simp
  have "map2 standard_backward (map2 standard_forward r ps) ps = r"
    by (rule nth_equalityI) (use len lps cell in simp_all)
  moreover have "\<not> list_ex (\<lambda>x. x = PInf \<or> x = NInf) (map2 standard_forward r ps)"
  proof -
    have "\<forall>i<length (map2 standard_forward r ps).
            map2 standard_forward r ps ! i \<noteq> PInf \<and> map2 standard_forward r ps ! i \<noteq> NInf"
      using cell len lps by simp
    then show ?thesis by (intro not_list_ex_nthI) simp
  qed
  ultimately show ?thesis using l1 by simp
qed


lemma check_array_Inr:
  "check_array t = Inr u \<longleftrightarrow> cells t \<noteq> [] \<and> columns t \<noteq> [] \<and> \<not> has_inf (cells t)"
  by (simp add: check_array_def)

lemma standard_table_roundtrip:
  assumes wf: "wf_table t" and ok: "check_array t = Inr ()"
    and ps: "ps = fit_params standard_stats t"
    and sc: "scaled = \<lparr>columns = columns t, cells = apply_params standard_forward ps (cells t)\<rparr>"
  shows "sk_inverse_transform (StandardScaler (Some ps)) scaled = Inr (cells t)"
proof -
  let ?n = "length (columns t)"
  have ps': "ps = map (\<lambda>j. standard_stats (column (cells t) j)) [0..<?n]"
    using ps by (simp add: fit_params_def)
  have row: "map2 standard_backward (map2 standard_forward r ps) ps = r \<and>
         \<not> list_ex (\<lambda>x. x = PInf \<or> x = NInf) (map2 standard_forward r ps)"
    if "r \<in> set (cells t)" for r
  proof -
    have "length r = ?n" using wf that by (simp add: wf_table_def list_all_iff)
    moreover have "\<not> list_ex (\<lambda>x. x = PInf \<or> x = NInf) r"
      using ok that by (auto simp: check_array_Inr has_inf_def list_ex_iff)
    ultimately show ?thesis using standard_row_roundtrip[OF _ that _ ps'] by blast
  qed
  have "\<not> has_inf (cells scaled)"
    using row by (auto simp: sc has_inf_def apply_params_def list_ex_iff)
  then have "check_array scaled = Inr ()"
    using ok by (simp add: check_array_Inr sc apply_params_def)
  moreover have "length (columns scaled) = length ps" using ps' sc by simp
  moreover have "apply_params standard_backward ps (cells scaled) = cells t"
    using row by (simp add: sc apply_params_def map_idI)
  ultimately show ?thesis by (simp add: with_fitted_def)
qed

text \<open>
  C6. In standard mode, whenever \<open>fit_transform\<close> returns for a table, applying
  \<open>inverse_transform\<close> of the fitted object to the scaled table returns the clean
  table (the copy with infinities and missing values handled): same columns, same cells.
  The equality is exact because finite arithmetic is exact in this model; rounding is not
  modelled.
\<close>

theorem inverse_transform_roundtrip:
  assumes "wf_table df"
    and "DataScaler_init ''standard'' = Inr self"
    and "fit_transform self df handle_infinity fill_na = Inr (df_scaled, df_clean, self')"
  shows "inverse_transform self' df_scaled = Inr df_clean"
proof -
  have sc: "scaler self = StandardScaler None"
    using assms(2) by (auto simp: DataScaler_init_def)
  define c where "c = (let d = (if handle_infinity then df\<lparr>cells := replace_inf (cells df)\<rparr> else df)
      in d\<lparr>cells := fillna fill_na (cells d)\<rparr>)"
  have wfc: "wf_table c"
    using assms(1) by (auto simp: c_def wf_table_def list_all_iff fillna_def replace_inf_def Let_def)
  from assms(3) have ok: "check_array c = Inr ()"
    and res: "df_clean = c" "self' = self\<lparr>scaler := StandardScaler (Some (fit_params standard_stats c))\<rparr>"
       "df_scaled = \<lparr>columns = columns c,
          cells = apply_params standard_forward (fit_params standard_stats c) (cells c)\<rparr>"
    unfolding fit_transform_def c_def sc
    by (auto simp: Let_def split: sum.splits if_splits)
  have "sk_inverse_transform (scaler self') df_scaled = Inr (cells c)"
    using standard_table_roundtrip[OF wfc ok refl res(3)] res(2) by simp
  moreover have "columns df_scaled = columns c" using res(3) by simp
  ultimately show ?thesis by (simp add: inverse_transform_def res(1))
qed


lemma ex_fit:
  "fit_transform ex_scaler ex_features True (Fin 0) =
     Inr (\<lparr>columns = [''pts_per36'', ''fg2_pct''], cells = [[Fin (-1), Fin 0], [Fin 1, Fin 0]]\<rparr>,
          \<lparr>columns = [''pts_per36'', ''fg2_pct''], cells = [[Fin 1, Fin 0], [Fin 3, Fin 0]]\<rparr>,
          \<lparr>scaler = StandardScaler (Some [(Fin 2, Fin 1), (Fin 0, Fin 1)]), scaler_type = ''standard''\<rparr>)"
  by (simp add: fit_transform_def ex_scaler_def ex_features_def replace_inf_def fillna_def check_array_def
      has_inf_def fit_params_def column_def standard_stats_def handle_zeros_in_scale_def
      apply_params_def standard_forward_def fsub_def Let_def upt_rec[of 0] upt_rec[of 1] upt_rec[of "Suc 0"] upt_rec[of 2] power2_eq_square)


lemma sk_fit_transform_Inr:
  "sk_fit_transform sk t = Inr (sk', out) \<Longrightarrow>
     check_array t = Inr () \<and> length out = length (cells t)"
  by (cases sk) (auto simp: Let_def apply_params_def split: sum.splits)

lemma sk_fit_transform_total:
  "check_array t = Inr () \<Longrightarrow> \<exists>sk' out. sk_fit_transform sk t = Inr (sk', out)"
  by (cases sk) (auto simp: Let_def)

lemma clean_no_inf: "is_finite v \<Longrightarrow> \<not> has_inf (map (map (\<lambda>x. if is_finite x then x else v)) rs)"
  by (auto simp: has_inf_def list_ex_iff)

text \<open>
  C7. With \<open>handle_infinity\<close> set, whenever \<open>fit_transform\<close> returns, the clean
  table is the input with every cell that is infinite or missing replaced by
  \<open>fill_na\<close> and every other cell unchanged; the clean and the scaled table have the
  columns of the input, in order, and as many rows; with a finite \<open>fill_na\<close> (the
  default is 0) no cell of the clean table is NaN or infinite. For a table with at least
  one row and one column and a finite \<open>fill_na\<close> the call does return.
\<close>

theorem fit_transform_clean_table:
  "(\<forall>scaled clean self'.
      fit_transform self df True fill_na = Inr (scaled, clean, self') \<longrightarrow>
        clean = df\<lparr>cells := map (map (\<lambda>x. if is_finite x then x else fill_na)) (cells df)\<rparr> \<and>
        columns clean = columns df \<and> columns scaled = columns df \<and>
        length (cells clean) = length (cells df) \<and> length (cells scaled) = length (cells df) \<and>
        (is_finite fill_na \<longrightarrow> list_all (list_all is_finite) (cells clean))) \<and>
   (cells df \<noteq> [] \<and> columns df \<noteq> [] \<and> is_finite fill_na \<longrightarrow>
      (\<exists>scaled clean self'. fit_transform self df True fill_na = Inr (scaled, clean, self')))"
proof (intro conjI allI impI)
  fix scaled clean self'
  assume a: "fit_transform self df True fill_na = Inr (scaled, clean, self')"
  let ?c = "df\<lparr>cells := map (map (\<lambda>x. if is_finite x then x else fill_na)) (cells df)\<rparr>"
  from a obtain sk out where sk: "sk_fit_transform (scaler self) ?c = Inr (sk, out)"
    and r: "clean = ?c" "scaled = \<lparr>columns = columns ?c, cells = out\<rparr>"
    by (auto simp: fit_transform_def Let_def clean_cells_eq split: sum.splits)
  show "clean = ?c" by (rule r)
  show "columns clean = columns df" "columns scaled = columns df"
    "length (cells clean) = length (cells df)" using r by simp_all
  show "length (cells scaled) = length (cells df)"
    using sk_fit_transform_Inr[OF sk] r by simp
  show "list_all (list_all is_finite) (cells clean)" if "is_finite fill_na"
    using that r by (auto simp: list_all_iff)
next
  assume a: "cells df \<noteq> [] \<and> columns df \<noteq> [] \<and> is_finite fill_na"
  let ?c = "df\<lparr>cells := map (map (\<lambda>x. if is_finite x then x else fill_na)) (cells df)\<rparr>"
  have "check_array ?c = Inr ()"
    using a clean_no_inf by (simp add: check_array_Inr)
  from sk_fit_transform_total[OF this, of "scaler self"]
  show "\<exists>scaled clean self'. fit_transform self df True fill_na = Inr (scaled, clean, self')"
    by (auto simp: fit_transform_def Let_def clean_cells_eq)
qed

theorem fit_transform_clean_table_witness:
  "cells ex_features \<noteq> [] \<and> columns ex_features \<noteq> [] \<and> is_finite (Fin 0) \<and>
   (\<exists>scaled self'. fit_transform ex_scaler ex_features True (Fin 0) =
      Inr (scaled, \<lparr>columns = [''pts_per36'', ''fg2_pct''], cells = [[Fin 1, Fin 0], [Fin 3, Fin 0]]\<rparr>, self')
      \<and> columns scaled = [''pts_per36'', ''fg2_pct''] \<and> length (cells scaled) = 2)"
  using fit_transform_clean_table[of ex_scaler ex_features "Fin 0"]
  by (auto simp: ex_features_def)

theorem inverse_transform_roundtrip_witness:
  "wf_table ex_features \<and> DataScaler_init ''standard'' = Inr ex_scaler \<and>
   fit_transform ex_scaler ex_features True (Fin 0) =
     Inr (\<lparr>columns = [''pts_per36'', ''fg2_pct''], cells = [[Fin (-1), Fin 0], [Fin 1, Fin 0]]\<rparr>,
          \<lparr>columns = [''pts_per36'', ''fg2_pct''], cells = [[Fin 1, Fin 0], [Fin 3, Fin 0]]\<rparr>,
          \<lparr>scaler = StandardScaler (Some [(Fin 2, Fin 1), (Fin 0, Fin 1)]), scaler_type = ''standard''\<rparr>) \<and>
   inverse_transform \<lparr>scaler = StandardScaler (Some [(Fin 2, Fin 1), (Fin 0, Fin 1)]), scaler_type = ''standard''\<rparr>
      \<lparr>columns = [''pts_per36'', ''fg2_pct''], cells = [[Fin (-1), Fin 0], [Fin 1, Fin 0]]\<rparr> =
     Inr \<lparr>columns = [''pts_per36'', ''fg2_pct''], cells = [[Fin 1, Fin 0], [Fin 3, Fin 0]]\<rparr>"
proof -
  have h1: "wf_table ex_features" by (simp add: wf_table_def ex_features_def)
  have h2: "DataScaler_init ''standard'' = Inr ex_scaler" by (simp add: DataScaler_init_def ex_scaler_def)
  show ?thesis using h1 h2 ex_fit inverse_transform_roundtrip[OF h1 h2 ex_fit] by simp
qed

section \<open>Properties of the feature engineering\<close>

lemma ratio_or_zero_safe:
  "zero_safe_ratio (vals r num) (vals r den) (ratio_or_zero num den r)"
  by (cases "vals r num"; cases "vals r den")
     (auto simp: zero_safe_ratio_def ratio_or_zero_def np_where_def)

lemma calculate_shooting_percentages_Inr:
  assumes "{''2pa'', ''2pm'', ''3pa'', ''3pm'', ''fta'', ''ftm''} \<subseteq> set (fcolumns df)"
  shows "calculate_shooting_percentages df =
     Inr (set_col ''ft_pct'' (ratio_or_zero ''ftm'' ''fta'')
           (set_col ''fg3_pct'' (ratio_or_zero ''3pm'' ''3pa'')
             (set_col ''fg2_pct'' (ratio_or_zero ''2pm'' ''2pa'') df)))"
  using assms by (simp add: calculate_shooting_percentages_def assign_Inr fcolumns_set_col)

lemma calculate_usage_rates_Inr:
  assumes "{''fga'', ''2pa'', ''3pa''} \<subseteq> set (fcolumns df)"
  shows "calculate_usage_rates df =
     Inr (set_col ''usage_3p'' (ratio_or_zero ''3pa'' ''fga'')
           (set_col ''usage_2p'' (ratio_or_zero ''2pa'' ''fga'') df))"
  using assms by (simp add: calculate_usage_rates_def assign_Inr fcolumns_set_col)

lemma shooting_rows:
  assumes "{''2pa'', ''2pm'', ''3pa'', ''3pm'', ''fta'', ''ftm''} \<subseteq> set (fcolumns df)"
  shows "\<exists>ds. calculate_shooting_percentages df = Inr ds \<and>
     length (rows ds) = length (rows df) \<and>
     (\<forall>i<length (rows df).
        vals (rows ds ! i) ''fg2_pct'' = ratio_or_zero ''2pm'' ''2pa'' (rows df ! i) \<and>
        vals (rows ds ! i) ''fg3_pct'' = ratio_or_zero ''3pm'' ''3pa'' (rows df ! i) \<and>
        vals (rows ds ! i) ''ft_pct'' = ratio_or_zero ''ftm'' ''fta'' (rows df ! i))"
  by (simp add: calculate_shooting_percentages_Inr[OF assms] rows_set_col ratio_or_zero_def)

lemma usage_rows:
  assumes "{''fga'', ''2pa'', ''3pa''} \<subseteq> set (fcolumns df)"
  shows "\<exists>du. calculate_usage_rates df = Inr du \<and>
     length (rows du) = length (rows df) \<and>
     (\<forall>i<length (rows df).
        vals (rows du ! i) ''usage_2p'' = ratio_or_zero ''2pa'' ''fga'' (rows df ! i) \<and>
        vals (rows du ! i) ''usage_3p'' = ratio_or_zero ''3pa'' ''fga'' (rows df ! i))"
  by (simp add: calculate_usage_rates_Inr[OF assms] rows_set_col ratio_or_zero_def)

text \<open>
  C5. On a frame with the shooting columns, \<open>calculate_shooting_percentages\<close> and
  \<open>calculate_usage_rates\<close> return, and in every row \<open>fg2_pct\<close> is 2pm/2pa when
  2pa is positive and 0 when 2pa is 0, likewise \<open>fg3_pct\<close> from 3pm and 3pa and
  \<open>ft_pct\<close> from ftm and fta, and \<open>usage_2p\<close>, \<open>usage_3p\<close> are 2pa/fga and
  3pa/fga when fga is positive and 0 when fga is 0; for finite inputs each of the five
  cells is a finite number, so no division by zero reaches these columns.
\<close>

theorem shooting_and_usage_zero_safe:
  assumes "{''2pa'', ''2pm'', ''3pa'', ''3pm'', ''fta'', ''ftm'', ''fga''} \<subseteq> set (fcolumns df)"
  shows "\<exists>ds du. calculate_shooting_percentages df = Inr ds \<and>
     calculate_usage_rates df = Inr du \<and>
     length (rows ds) = length (rows df) \<and> length (rows du) = length (rows df) \<and>
     (\<forall>i<length (rows df).
        zero_safe_ratio (vals (rows df ! i) ''2pm'') (vals (rows df ! i) ''2pa'')
          (vals (rows ds ! i) ''fg2_pct'') \<and>
        zero_safe_ratio (vals (rows df ! i) ''3pm'') (vals (rows df ! i) ''3pa'')
          (vals (rows ds ! i) ''fg3_pct'') \<and>
        zero_safe_ratio (vals (rows df ! i) ''ftm'') (vals (rows df ! i) ''fta'')
          (vals (rows ds ! i) ''ft_pct'') \<and>
        zero_safe_ratio (vals (rows df ! i) ''2pa'') (vals (rows df ! i) ''fga'')
          (vals (rows du ! i) ''usage_2p'') \<and>
        zero_safe_ratio (vals (rows df ! i) ''3pa'') (vals (rows df ! i) ''fga'')
          (vals (rows du ! i) ''usage_3p''))"
proof -
  from assms have a: "{''2pa'', ''2pm'', ''3pa'', ''3pm'', ''fta'', ''ftm''} \<subseteq> set (fcolumns df)"
    and b: "{''fga'', ''2pa'', ''3pa''} \<subseteq> set (fcolumns df)" by auto
  from shooting_rows[OF a] usage_rows[OF b] show ?thesis
    by (auto simp: ratio_or_zero_safe)
qed

lemma ex_box_shooting:
  "\<exists>ds. calculate_shooting_percentages ex_box = Inr ds \<and>
     map (\<lambda>r. (vals r ''fg2_pct'', vals r ''fg3_pct'', vals r ''ft_pct'')) (rows ds) =
       [(Fin (1/2), Fin (1/4), Fin (4/5)), (Fin 0, Fin 0, Fin 0)]"
  by (simp add: calculate_shooting_percentages_def assign_def ex_box_def set_col_def mk_player_def
      cells_of_def ratio_or_zero_def np_where_def)


theorem shooting_and_usage_zero_safe_witness:
  "{''2pa'', ''2pm'', ''3pa'', ''3pm'', ''fta'', ''ftm'', ''fga''} \<subseteq> set (fcolumns ex_box) \<and>
   (\<exists>ds du. calculate_shooting_percentages ex_box = Inr ds \<and>
     calculate_usage_rates ex_box = Inr du \<and>
     map (\<lambda>r. (vals r ''fg2_pct'', vals r ''fg3_pct'', vals r ''ft_pct'')) (rows ds) =
       [(Fin (1/2), Fin (1/4), Fin (4/5)), (Fin 0, Fin 0, Fin 0)] \<and>
     map (\<lambda>r. (vals r ''usage_2p'', vals r ''usage_3p'')) (rows du) =
       [(Fin (3/5), Fin (2/5)), (Fin 0, Fin 0)])"
  using shooting_and_usage_zero_safe[of ex_box]
  by (simp add: calculate_shooting_percentages_def calculate_usage_rates_def assign_def ex_box_def
      set_col_def mk_player_def cells_of_def ratio_or_zero_def np_where_def)

lemma possessions_of_Fin:
  "vals r ''fga'' = Fin a \<Longrightarrow> vals r ''fta'' = Fin b \<Longrightarrow> vals r ''orb'' = Fin c \<Longrightarrow>
   vals r ''tov'' = Fin d \<Longrightarrow> possessions_of r = Fin (a + 0.44 * b - c + d)"
  by (simp add: possessions_of_def FREE_THROW_POSSESSION_FACTOR_def fsub_def)

lemma oer_of_cases:
  "vals r ''possessions'' = Fin p \<Longrightarrow> vals r ''pts'' = Fin q \<Longrightarrow> 0 < p \<Longrightarrow>
     oer_of r = Fin (100 * q / p)"
  "vals r ''possessions'' = Fin p \<Longrightarrow> p \<le> 0 \<Longrightarrow> oer_of r = Fin 0"
  by (simp_all add: oer_of_def np_where_def EFFICIENCY_MULTIPLIER_def)

text \<open>
  C4. On a frame with the columns read, \<open>calculate_possessions\<close> and then
  \<open>calculate_oer\<close> return, and in every row \<open>possessions\<close> is
  fga + 0.44 * fta - orb + tov, while \<open>oer\<close> is 100 * pts / possessions when the
  possessions are positive and 0 when they are zero or negative. The witness evaluates
  the literal inputs: fga 10, fta 5, orb 2, tov 3 give 13.2, and 20 points give an
  \<open>oer\<close> within 0.005 of 151.52.
\<close>

theorem possessions_and_oer:
  assumes "{''fga'', ''fta'', ''orb'', ''tov'', ''pts''} \<subseteq> set (fcolumns df)"
  shows "\<exists>dp dq. calculate_possessions df = Inr dp \<and> calculate_oer dp = Inr dq \<and>
     length (rows dp) = length (rows df) \<and> length (rows dq) = length (rows df) \<and>
     (\<forall>i<length (rows df).
        (\<forall>a b c d. vals (rows df ! i) ''fga'' = Fin a \<and> vals (rows df ! i) ''fta'' = Fin b \<and>
             vals (rows df ! i) ''orb'' = Fin c \<and> vals (rows df ! i) ''tov'' = Fin d \<longrightarrow>
             vals (rows dp ! i) ''possessions'' = Fin (a + 0.44 * b - c + d)) \<and>
        vals (rows dq ! i) ''possessions'' = vals (rows dp ! i) ''possessions'' \<and>
        (\<forall>p q. vals (rows dp ! i) ''possessions'' = Fin p \<and> vals (rows df ! i) ''pts'' = Fin q \<and>
             0 < p \<longrightarrow> vals (rows dq ! i) ''oer'' = Fin (100 * q / p)) \<and>
        (\<forall>p. vals (rows dp ! i) ''possessions'' = Fin p \<and> p \<le> 0 \<longrightarrow>
             vals (rows dq ! i) ''oer'' = Fin 0))"
proof -
  let ?dp = "set_col ''possessions'' possessions_of df"
  let ?dq = "set_col ''oer'' oer_of ?dp"
  have 1: "calculate_possessions df = Inr ?dp"
    using assms by (simp add: calculate_possessions_def assign_Inr)
  have 2: "calculate_oer ?dp = Inr ?dq"
    using assms by (simp add: calculate_oer_def assign_Inr fcolumns_set_col)
  have 3: "\<forall>i<length (rows df).
        (\<forall>a b c d. vals (rows df ! i) ''fga'' = Fin a \<and> vals (rows df ! i) ''fta'' = Fin b \<and>
             vals (rows df ! i) ''orb'' = Fin c \<and> vals (rows df ! i) ''tov'' = Fin d \<longrightarrow>
             vals (rows ?dp ! i) ''possessions'' = Fin (a + 0.44 * b - c + d)) \<and>
        vals (rows ?dq ! i) ''possessions'' = vals (rows ?dp ! i) ''possessions'' \<and>
        (\<forall>p q. vals (rows ?dp ! i) ''possessions'' = Fin p \<and> vals (rows df ! i) ''pts'' = Fin q \<and>
             0 < p \<longrightarrow> vals (rows ?dq ! i) ''oer'' = Fin (100 * q / p)) \<and>
        (\<forall>p. vals (rows ?dp ! i) ''possessions'' = Fin p \<and> p \<le> 0 \<longrightarrow>
             vals (rows ?dq ! i) ''oer'' = Fin 0)"
    by (auto simp: rows_set_col possessions_of_Fin oer_of_cases)
  show ?thesis
    using 1 2 3 by (intro exI[of _ ?dp] exI[of _ ?dq]) (simp add: rows_set_col)
qed

theorem possessions_and_oer_witness:
  "{''fga'', ''fta'', ''orb'', ''tov'', ''pts''} \<subseteq> set (fcolumns ex_box) \<and>
   (\<exists>dp dq. calculate_possessions ex_box = Inr dp \<and> calculate_oer dp = Inr dq \<and>
      map (\<lambda>r. vals r ''possessions'') (rows dp) = [Fin 13.2, Fin 0] \<and>
      map (\<lambda>r. vals r ''oer'') (rows dq) = [Fin (2000 / 13.2), Fin 0] \<and>
      \<bar>2000 / 13.2 - 151.52\<bar> < (0.005 :: real))"
  using possessions_and_oer[of ex_box]
  by (simp add: calculate_possessions_def calculate_oer_def assign_def ex_box_def
      set_col_def mk_player_def cells_of_def possessions_of_def oer_of_def np_where_def
      FREE_THROW_POSSESSION_FACTOR_def EFFICIENCY_MULTIPLIER_def fsub_def)

section \<open>Properties of the aggregation\<close>

lemma foldl_fadd_Fin: "foldl fadd (Fin a) (map Fin xs) = Fin (a + sum_list xs)"
  by (induction xs arbitrary: a) simp_all

lemma fsum_Fin: "fsum (map Fin xs) = Fin (sum_list xs)"
  by (simp add: fsum_def filter_map comp_def foldl_fadd_Fin)

lemma filter_notna_noinf:
  "\<forall>x\<in>set xs. x \<noteq> PInf \<and> x \<noteq> NInf \<Longrightarrow>
     filter (\<lambda>x. \<not> isna x) xs = map Fin (finite_values xs)"
  by (induction xs rule: finite_values.induct) simp_all

lemma fsum_noinf:
  "\<forall>x\<in>set xs. x \<noteq> PInf \<and> x \<noteq> NInf \<Longrightarrow> fsum xs = Fin (sum_list (finite_values xs))"
  by (simp add: fsum_def filter_notna_noinf foldl_fadd_Fin)

lemma finite_values_Fin [simp]: "finite_values (map Fin xs) = xs"
  by (induction xs) simp_all

lemma foldl_dict:
  "foldl (\<lambda>res c. if c \<in> S then res(c := v c) else res) init fs x =
     (if x \<in> set fs \<and> x \<in> S then v x else init x)"
  by (induction fs arbitrary: init) auto

lemma map_err_all_Inr: "(\<And>x. x \<in> set xs \<Longrightarrow> f x = Inr (g x)) \<Longrightarrow> map_err f xs = Inr (map g xs)"
  by (induction xs) simp_all

lemma set_group_keys [simp]: "set (group_keys ks) = set ks"
  by (simp add: group_keys_def)

lemma distinct_group_keys [simp]: "distinct (group_keys ks)"
  by (simp add: group_keys_def)

lemma group_of_nonempty:
  "k \<in> player_feb_id ` set (rows df) \<Longrightarrow> group_of df k \<noteq> []"
  by (auto simp: group_of_def filter_empty_conv)

lemma weighted_mean_Inr:
  assumes "g \<noteq> []"
  shows "weighted_mean cols g features =
     Inr (player_name (hd g),
          \<lambda>c. if c = ''minutes_played'' then wm_total g
               else if c \<in> set features \<and> c \<in> set cols then wm_value g c else NaN)"
proof -
  obtain r rest where g: "g = r # rest" using assms by (cases g) auto
  show ?thesis
    unfolding weighted_mean_def g list.case Let_def foldl_dict wm_total_def[symmetric] 
    by (auto simp: wm_value_def wm_total_def fun_eq_iff)
qed

lemma aggregate_weighted_Inr:
  assumes "''minutes_played'' \<in> set (fcolumns df)"
  shows "aggregate_by_player df features True =
     Inr \<lparr>fcolumns = unique (filter (\<lambda>c. c \<in> set (fcolumns df)) features @ [''minutes_played'']),
          rows = map (\<lambda>k. \<lparr>agg_player_feb_id = k,
                           agg_player_name = player_name (hd (group_of df k)),
                           agg_vals = (\<lambda>c. if c = ''minutes_played'' then wm_total (group_of df k)
                               else if c \<in> set features \<and> c \<in> set (fcolumns df)
                                    then wm_value (group_of df k) c else NaN)\<rparr>)
                   (group_keys (map player_feb_id (rows df)))\<rparr>"
proof -
  have "map_err (\<lambda>k. case weighted_mean (fcolumns df) (group_of df k) features of
                                 Inl e \<Rightarrow> Inl e
                               | Inr (nm, vs) \<Rightarrow> Inr \<lparr>agg_player_feb_id = k, agg_player_name = nm,
                                                      agg_vals = vs\<rparr>)
          (group_keys (map player_feb_id (rows df))) =
        Inr (map (\<lambda>k. \<lparr>agg_player_feb_id = k,
                           agg_player_name = player_name (hd (group_of df k)),
                           agg_vals = (\<lambda>c. if c = ''minutes_played'' then wm_total (group_of df k)
                               else if c \<in> set features \<and> c \<in> set (fcolumns df)
                                    then wm_value (group_of df k) c else NaN)\<rparr>)
                   (group_keys (map player_feb_id (rows df))))"
    by (rule map_err_all_Inr) (simp add: weighted_mean_Inr group_of_nonempty)
  then show ?thesis using assms by (simp add: aggregate_by_player_def Let_def)
qed


lemma map_fmul_Fin:
  "map f g = map Fin fs \<Longrightarrow> map m g = map Fin ms \<Longrightarrow>
     map (\<lambda>r. fmul (f r) (m r)) g = map Fin (map2 (*) fs ms)"
proof (induction g arbitrary: fs ms)
  case Nil
  then show ?case by simp
next
  case (Cons r g)
  then show ?case by (cases fs; cases ms) auto
qed

lemma wm_total_Fin:
  "map (\<lambda>r. vals r ''minutes_played'') g = map Fin ms \<Longrightarrow> wm_total g = Fin (sum_list ms)"
  by (simp add: wm_total_def fsum_Fin)

lemma wm_value_Fin:
  assumes "map (\<lambda>r. vals r col) g = map Fin fs"
    and "map (\<lambda>r. vals r ''minutes_played'') g = map Fin ms"
  shows "wm_value g col = fdiv (Fin (sum_list (map2 (*) fs ms))) (Fin (sum_list ms))"
proof -
  have "fsum (map (\<lambda>r. fmul (vals r col) (vals r ''minutes_played'')) g) =
          Fin (sum_list (map2 (*) fs ms))"
    by (simp only: map_fmul_Fin[OF assms] fsum_Fin)
  then show ?thesis
    by (simp only: wm_value_def wm_total_Fin[OF assms(2)])
qed

lemma weighted_rows_ids:
  "map agg_player_feb_id (weighted_rows df features) = group_keys (map player_feb_id (rows df))"
  by (simp add: weighted_rows_def comp_def)

lemma weighted_rows_vals:
  assumes "row \<in> set (weighted_rows df features)"
  shows "agg_vals row ''minutes_played'' = wm_total (group_of df (agg_player_feb_id row))"
    and "col \<in> set features \<Longrightarrow> col \<in> set (fcolumns df) \<Longrightarrow> col \<noteq> ''minutes_played'' \<Longrightarrow>
         agg_vals row col = wm_value (group_of df (agg_player_feb_id row)) col"
    and "agg_player_feb_id row \<in> player_feb_id ` set (rows df)"
  using assms by (auto simp: weighted_rows_def)

lemma aggregate_weighted_rows:
  assumes "''minutes_played'' \<in> set (fcolumns df)"
  shows "\<exists>out. aggregate_by_player df features True = Inr out \<and>
           rows out = weighted_rows df features"
  by (simp add: aggregate_weighted_Inr[OF assms] weighted_rows_def)

text \<open>
  C2. In weighted mode (the frame has the column \<open>minutes_played\<close>) the aggregation
  returns one row per distinct player identifier. For a player whose game rows have the
  minutes \<open>ms\<close>, the aggregate's \<open>minutes_played\<close> is their sum; for each
  aggregated feature with per-game values \<open>fs\<close> the aggregate is the sum of the
  products value times minutes divided by the sum of the minutes (a nonzero sum: the
  quotient is a number).
\<close>

theorem aggregate_by_player_weighted:
  assumes "''minutes_played'' \<in> set (fcolumns df)"
  shows "\<exists>out. aggregate_by_player df features True = Inr out \<and>
     distinct (map agg_player_feb_id (rows out)) \<and>
     set (map agg_player_feb_id (rows out)) = player_feb_id ` set (rows df) \<and>
     (\<forall>row\<in>set (rows out). \<forall>ms.
        map (\<lambda>r. vals r ''minutes_played'') (group_of df (agg_player_feb_id row)) = map Fin ms \<longrightarrow>
          agg_vals row ''minutes_played'' = Fin (sum_list ms) \<and>
          (\<forall>col fs. col \<in> set features \<and> col \<in> set (fcolumns df) \<and> col \<noteq> ''minutes_played'' \<and>
             map (\<lambda>r. vals r col) (group_of df (agg_player_feb_id row)) = map Fin fs \<and>
             sum_list ms \<noteq> 0 \<longrightarrow>
             agg_vals row col = Fin (sum_list (map2 (*) fs ms) / sum_list ms)))"
proof -
  obtain out where out: "aggregate_by_player df features True = Inr out"
    and rs: "rows out = weighted_rows df features"
    using aggregate_weighted_rows[OF assms] by blast
  have ids: "map agg_player_feb_id (rows out) = group_keys (map player_feb_id (rows df))"
    by (simp add: rs weighted_rows_ids)
  have vals: "agg_vals row ''minutes_played'' = Fin (sum_list ms) \<and>
          (\<forall>col fs. col \<in> set features \<and> col \<in> set (fcolumns df) \<and> col \<noteq> ''minutes_played'' \<and>
             map (\<lambda>r. vals r col) (group_of df (agg_player_feb_id row)) = map Fin fs \<and>
             sum_list ms \<noteq> 0 \<longrightarrow>
             agg_vals row col = Fin (sum_list (map2 (*) fs ms) / sum_list ms))"
    if row: "row \<in> set (rows out)"
      and ms: "map (\<lambda>r. vals r ''minutes_played'') (group_of df (agg_player_feb_id row)) = map Fin ms"
    for row ms
  proof (intro conjI allI impI)
    show "agg_vals row ''minutes_played'' = Fin (sum_list ms)"
      using weighted_rows_vals(1) row rs wm_total_Fin[OF ms] by metis
  next
    fix col fs
    assume a: "col \<in> set features \<and> col \<in> set (fcolumns df) \<and> col \<noteq> ''minutes_played'' \<and>
             map (\<lambda>r. vals r col) (group_of df (agg_player_feb_id row)) = map Fin fs \<and>
             sum_list ms \<noteq> 0"
    then have "agg_vals row col = wm_value (group_of df (agg_player_feb_id row)) col"
      using weighted_rows_vals(2) row rs by metis
    also have "\<dots> = fdiv (Fin (sum_list (map2 (*) fs ms))) (Fin (sum_list ms))"
      using a ms by (intro wm_value_Fin) simp_all
    finally show "agg_vals row col = Fin (sum_list (map2 (*) fs ms) / sum_list ms)"
      using a by simp
  qed
  show ?thesis
    using out ids vals by (intro exI[of _ out]) (simp del: set_map, simp)
qed


lemma ex_games_weighted:
  "\<exists>out. aggregate_by_player ex_games [''pts_per36''] True = Inr out \<and>
     map (\<lambda>r. (agg_player_feb_id r, agg_player_name r, agg_vals r ''minutes_played'',
                agg_vals r ''pts_per36'')) (rows out) =
       [(1, ''A'', Fin 40, Fin 13.5), (2, ''B'', Fin 20, Fin 9), (3, ''C'', Fin 50, Fin 12)]"
  by (simp add: aggregate_by_player_def ex_games_def group_keys_def group_of_def mk_player_def
      cells_of_def weighted_mean_def fsum_def Let_def)


theorem aggregate_by_player_weighted_witness:
  "''minutes_played'' \<in> set (fcolumns ex_games) \<and>
   (\<exists>out. aggregate_by_player ex_games [''pts_per36''] True = Inr out \<and>
     map (\<lambda>r. (agg_player_feb_id r, agg_player_name r, agg_vals r ''minutes_played'',
                agg_vals r ''pts_per36'')) (rows out) =
       [(1, ''A'', Fin 40, Fin ((18 * 10 + 12 * 30) / (10 + 30))), (2, ''B'', Fin 20, Fin 9),
        (3, ''C'', Fin 50, Fin 12)])"
  using aggregate_by_player_weighted[of ex_games "[''pts_per36'']"] ex_games_weighted
  by (simp add: ex_games_def)

lemma fmean_Fin: "fs \<noteq> [] \<Longrightarrow> fmean (map Fin fs) = Fin (sum_list fs / real (length fs))"
  by (simp add: fmean_def Let_def filter_map comp_def fsum_Fin)

lemma simple_mean_vals:
  assumes "''minutes_played'' \<in> set cols" "col \<in> set features" "col \<in> set cols"
    "col \<noteq> ''minutes_played''"
  shows "snd (simple_mean cols g features) col = fmean (map (\<lambda>r. vals r col) g)"
  using assms by (simp add: simple_mean_def Let_def foldl_dict)

lemma aggregate_simple_rows:
  "\<exists>out. aggregate_by_player df features False = Inr out \<and> rows out = simple_rows df features"
  by (simp add: aggregate_by_player_def Let_def simple_rows_def case_prod_unfold)

lemma simple_rows_ids:
  "map agg_player_feb_id (simple_rows df features) = group_keys (map player_feb_id (rows df))"
  by (simp add: simple_rows_def comp_def)

lemma sum_list_map2_replicate:
  "length fs = n \<Longrightarrow> sum_list (map2 (*) fs (replicate n m)) = sum_list fs * (m::real)"
  by (induction fs arbitrary: n) (auto simp: algebra_simps)

lemma map_const_replicate: "\<forall>r\<in>set g. f r = c \<Longrightarrow> map f g = replicate (length g) c"
  by (induction g) simp_all

lemma equal_minutes_value:
  assumes fs: "map (\<lambda>r. vals r col) g = map Fin fs"
    and eq: "\<forall>r\<in>set g. vals r ''minutes_played'' = Fin m" and m: "0 < m" and ne: "g \<noteq> []"
  shows "wm_value g col = Fin (sum_list fs / real (length fs))"
proof -
  have len: "length fs = length g" using fs by (metis length_map)
  have ms: "map (\<lambda>r. vals r ''minutes_played'') g = map Fin (replicate (length g) m)"
    using map_const_replicate[OF eq] by simp
  have n: "0 < real (length g)" using ne by simp
  have "wm_value g col = fdiv (Fin (sum_list fs * m)) (Fin (real (length g) * m))"
    using wm_value_Fin[OF fs ms] sum_list_map2_replicate[OF len] by (simp add: sum_list_replicate)
  also have "\<dots> = Fin (sum_list fs / real (length fs))"
    using m n len by simp
  finally show ?thesis .
qed


text \<open>
  For a player all of whose game rows have the same positive minutes and a number in the
  feature's cell, both modes give the arithmetic mean of the per-game values; with a
  single game both give that game's value. Both modes return rows for the same players in
  the same order.
\<close>

lemma equal_minutes_numeric_agree:
  assumes "''minutes_played'' \<in> set (fcolumns df)"
  shows "\<exists>ow os. aggregate_by_player df features True = Inr ow \<and>
     aggregate_by_player df features False = Inr os \<and>
     map agg_player_feb_id (rows ow) = map agg_player_feb_id (rows os) \<and>
     (\<forall>i<length (rows ow). \<forall>col fs m.
        col \<in> set features \<and> col \<in> set (fcolumns df) \<and> col \<noteq> ''minutes_played'' \<and>
        map (\<lambda>r. vals r col) (group_of df (agg_player_feb_id (rows ow ! i))) = map Fin fs \<and>
        (\<forall>r\<in>set (group_of df (agg_player_feb_id (rows ow ! i))).
            vals r ''minutes_played'' = Fin m) \<and> 0 < m \<longrightarrow>
          agg_vals (rows ow ! i) col = Fin (sum_list fs / real (length fs)) \<and>
          agg_vals (rows os ! i) col = Fin (sum_list fs / real (length fs)) \<and>
          (\<forall>f. fs = [f] \<longrightarrow> agg_vals (rows ow ! i) col = Fin f \<and>
                              agg_vals (rows os ! i) col = Fin f))"
proof -
  let ?keys = "group_keys (map player_feb_id (rows df))"
  obtain ow where ow: "aggregate_by_player df features True = Inr ow"
    and rw: "rows ow = weighted_rows df features"
    using aggregate_weighted_rows[OF assms] by blast
  obtain os where os: "aggregate_by_player df features False = Inr os"
    and rs: "rows os = simple_rows df features"
    using aggregate_simple_rows by blast
  have ids: "map agg_player_feb_id (rows ow) = map agg_player_feb_id (rows os)"
    by (simp add: rw rs weighted_rows_ids simple_rows_ids)
  have main: "agg_vals (rows ow ! i) col = Fin (sum_list fs / real (length fs)) \<and>
          agg_vals (rows os ! i) col = Fin (sum_list fs / real (length fs)) \<and>
          (\<forall>f. fs = [f] \<longrightarrow> agg_vals (rows ow ! i) col = Fin f \<and>
                              agg_vals (rows os ! i) col = Fin f)"
    if i: "i < length (rows ow)"
      and c: "col \<in> set features" "col \<in> set (fcolumns df)" "col \<noteq> ''minutes_played''"
      and fs: "map (\<lambda>r. vals r col) (group_of df (agg_player_feb_id (rows ow ! i))) = map Fin fs"
      and eq: "\<forall>r\<in>set (group_of df (agg_player_feb_id (rows ow ! i))).
                 vals r ''minutes_played'' = Fin m"
      and m: "0 < m"
    for i col fs m
  proof -
    have ik: "i < length ?keys" using i rw by (simp add: weighted_rows_def)
    define k where "k = ?keys ! i"
    have kin: "k \<in> player_feb_id ` set (rows df)"
      using ik nth_mem[OF ik] by (simp add: k_def del: nth_mem)
    have idw: "agg_player_feb_id (rows ow ! i) = k"
      using ik by (simp add: rw weighted_rows_def k_def)
    have ne: "group_of df k \<noteq> []" using kin by (rule group_of_nonempty)
    have fsne: "fs \<noteq> []" using fs ne idw by auto
    have w: "agg_vals (rows ow ! i) col = wm_value (group_of df k) col"
      using ik c by (simp add: rw weighted_rows_def k_def)
    have s: "agg_vals (rows os ! i) col = fmean (map (\<lambda>r. vals r col) (group_of df k))"
      using ik c assms by (simp add: rs simple_rows_def k_def simple_mean_vals)
    have 1: "agg_vals (rows ow ! i) col = Fin (sum_list fs / real (length fs))"
      using equal_minutes_value[OF _ _ m ne, of col fs] fs eq w idw by simp
    have 2: "agg_vals (rows os ! i) col = Fin (sum_list fs / real (length fs))"
      using s fs idw fmean_Fin[OF fsne] by simp
    show ?thesis using 1 2 by auto
  qed
  show ?thesis
    using ow os ids main by (intro exI[of _ ow] exI[of _ os]) blast
qed

lemma equal_minutes_numeric_example:
  "''minutes_played'' \<in> set (fcolumns ex_games) \<and>
   (\<exists>ow os. aggregate_by_player ex_games [''pts_per36''] True = Inr ow \<and>
      aggregate_by_player ex_games [''pts_per36''] False = Inr os \<and>
      map (\<lambda>r. (agg_player_feb_id r, agg_vals r ''pts_per36'')) (rows ow) =
        [(1, Fin 13.5), (2, Fin 9), (3, Fin ((8 + 16) / 2))] \<and>
      map (\<lambda>r. (agg_player_feb_id r, agg_vals r ''pts_per36'')) (rows os) =
        [(1, Fin 15), (2, Fin 9), (3, Fin ((8 + 16) / 2))])"
  using equal_minutes_numeric_agree[of ex_games "[''pts_per36'']"]
  by (simp add: aggregate_by_player_def ex_games_def group_keys_def group_of_def mk_player_def
      cells_of_def weighted_mean_def simple_mean_def fmean_def fsum_def Let_def)


text \<open>
  C8. With a missing cell the two modes part, although all minutes are equal and
  positive. The weighted mode drops the missing product from the sum and keeps that
  game's minutes in the total; the simple mode drops the game from both the sum and the
  count. For two games of 10 minutes with the values 4 and missing, the weighted
  aggregate is 2 and the simple mean is 4; for a single game with a missing value the
  weighted aggregate is 0 and the simple mean is missing.
\<close>

theorem equal_minutes_missing_value_differs:
  "\<exists>ow os. aggregate_by_player ex_missing [''pf''] True = Inr ow \<and>
      aggregate_by_player ex_missing [''pf''] False = Inr os \<and>
      map (\<lambda>r. (agg_player_feb_id r, agg_vals r ''minutes_played'', agg_vals r ''pf'')) (rows ow) =
        [(1, Fin 20, Fin 2), (2, Fin 20, Fin 0)] \<and>
      map (\<lambda>r. (agg_player_feb_id r, agg_vals r ''minutes_played'', agg_vals r ''pf'')) (rows os) =
        [(1, Fin 20, Fin 4), (2, Fin 20, NaN)]"
  by (simp add: aggregate_by_player_def ex_missing_def group_keys_def group_of_def mk_player_def
      cells_of_def weighted_mean_def simple_mean_def fmean_def fsum_def Let_def)

theorem equal_minutes_missing_value_differs_witness:
  "(\<exists>ow. aggregate_by_player ex_missing [''pf''] True = Inr ow \<and>
      map (\<lambda>r. agg_vals r ''pf'') (rows ow) = [Fin 2, Fin 0]) \<and>
   (\<exists>os. aggregate_by_player ex_missing [''pf''] False = Inr os \<and>
      map (\<lambda>r. agg_vals r ''pf'') (rows os) = [Fin 4, NaN])"
  using equal_minutes_missing_value_differs
  by (simp add: aggregate_by_player_def ex_missing_def group_keys_def group_of_def mk_player_def
      cells_of_def weighted_mean_def simple_mean_def fmean_def fsum_def Let_def)

lemma map_Fin_finite_values: "\<forall>x\<in>set xs. is_finite x \<Longrightarrow> map Fin (finite_values xs) = xs"
  by (induction xs rule: finite_values.induct) simp_all

lemma set_finite_values: "set (finite_values xs) = {x. Fin x \<in> set xs}"
  by (induction xs rule: finite_values.induct) auto

lemma sum_list_pos_real: "xs \<noteq> [] \<Longrightarrow> \<forall>x\<in>set xs. 0 < x \<Longrightarrow> 0 < sum_list (xs :: real list)"
  by (induction xs) (auto intro: add_pos_nonneg sum_list_nonneg less_imp_le)

lemma wm_total_pos:
  assumes "g \<noteq> []" and "\<forall>r\<in>set g. \<exists>m. vals r ''minutes_played'' = Fin m \<and> 0 < m"
  shows "\<exists>t. wm_total g = Fin t \<and> 0 < t"
proof -
  let ?xs = "map (\<lambda>r. vals r ''minutes_played'') g"
  have fin: "\<forall>x\<in>set ?xs. is_finite x" using assms(2) by auto
  have eq: "?xs = map Fin (finite_values ?xs)" using map_Fin_finite_values[OF fin] by simp
  have ne: "finite_values ?xs \<noteq> []" using assms(1) eq by (metis map_is_Nil_conv)
  have pos: "\<forall>x\<in>set (finite_values ?xs). 0 < x"
    using assms(2) by (auto simp: set_finite_values)
  have "wm_total g = Fin (sum_list (finite_values ?xs))" using wm_total_Fin[OF eq] .
  then show ?thesis using sum_list_pos_real[OF ne pos] by blast
qed

lemma wm_value_finite:
  assumes "g \<noteq> []" and "\<forall>r\<in>set g. \<exists>m. vals r ''minutes_played'' = Fin m \<and> 0 < m"
    and "\<forall>r\<in>set g. vals r col \<noteq> PInf \<and> vals r col \<noteq> NInf"
  shows "is_finite (wm_value g col)"
proof -
  obtain t where t: "wm_total g = Fin t" "0 < t" using wm_total_pos[OF assms(1,2)] by blast
  have "\<forall>x\<in>set (map (\<lambda>r. fmul (vals r col) (vals r ''minutes_played'')) g). x \<noteq> PInf \<and> x \<noteq> NInf"
  proof
    fix x assume "x \<in> set (map (\<lambda>r. fmul (vals r col) (vals r ''minutes_played'')) g)"
    then obtain r where r: "r \<in> set g" "x = fmul (vals r col) (vals r ''minutes_played'')" by auto
    obtain m where "vals r ''minutes_played'' = Fin m" using assms(2) r(1) by blast
    moreover have "vals r col \<noteq> PInf \<and> vals r col \<noteq> NInf" using assms(3) r(1) by blast
    ultimately show "x \<noteq> PInf \<and> x \<noteq> NInf" using r(2) by (cases "vals r col") simp_all
  qed
  from fsum_noinf[OF this] t show ?thesis by (simp add: wm_value_def)
qed

lemma ex_zero_minutes_nan:
  "\<exists>out. aggregate_by_player ex_zero_minutes [''pts_per36''] True = Inr out \<and>
      map (\<lambda>r. (agg_vals r ''minutes_played'', agg_vals r ''pts_per36'')) (rows out) = [(Fin 0, NaN)]"
  by (simp add: aggregate_by_player_def ex_zero_minutes_def group_keys_def group_of_def
      mk_player_def cells_of_def weighted_mean_def fsum_def Let_def)

lemma filter_by_minutes_positive:
  "filter_by_minutes df (Fin 0) = Inr df' \<Longrightarrow> r \<in> set (rows df') \<Longrightarrow>
     r \<in> set (rows df) \<and> (vals r ''minutes'' = PInf \<or> (\<exists>s. vals r ''minutes'' = Fin s \<and> 0 < s))"
  by (cases "vals r ''minutes''") (auto simp: filter_by_minutes_def split: if_splits)

text \<open>
  C10. When every row has a positive (finite) \<open>minutes_played\<close>, the weighted
  aggregation returns, every player's total is a positive number and every aggregated
  feature whose per-game cells are not infinite is a finite number. The division itself
  is unguarded: a single row with no playing time aggregates to NaN. Upstream,
  \<open>filter_by_minutes\<close> with the default bound keeps only rows with positive minutes
  (seconds), and \<open>convert_seconds_to_minutes\<close> turns positive seconds into positive
  \<open>minutes_played\<close>.
\<close>

theorem weighted_division_safe:
  "(''minutes_played'' \<in> set (fcolumns df) \<and>
    (\<forall>r\<in>set (rows df). \<exists>m. vals r ''minutes_played'' = Fin m \<and> 0 < m) \<longrightarrow>
      (\<exists>out. aggregate_by_player df features True = Inr out \<and>
         (\<forall>row\<in>set (rows out).
            (\<exists>t. agg_vals row ''minutes_played'' = Fin t \<and> 0 < t) \<and>
            (\<forall>col\<in>set features. col \<in> set (fcolumns df) \<and>
                 (\<forall>r\<in>set (rows df). vals r col \<noteq> PInf \<and> vals r col \<noteq> NInf) \<longrightarrow>
                 is_finite (agg_vals row col))))) \<and>
   (\<exists>out. aggregate_by_player ex_zero_minutes [''pts_per36''] True = Inr out \<and>
      map (\<lambda>r. (agg_vals r ''minutes_played'', agg_vals r ''pts_per36'')) (rows out) = [(Fin 0, NaN)]) \<and>
   (\<forall>dg dg'. filter_by_minutes (dg :: player_row frame) (Fin 0) = Inr dg' \<longrightarrow>
      (\<forall>r\<in>set (rows dg'). vals r ''minutes'' = PInf \<or> (\<exists>s. vals r ''minutes'' = Fin s \<and> 0 < s))) \<and>
   (\<forall>dg dg'. convert_seconds_to_minutes (dg :: player_row frame) = Inr dg' \<longrightarrow>
      length (rows dg') = length (rows dg) \<and>
      (\<forall>i<length (rows dg). \<forall>s. vals (rows dg ! i) ''minutes'' = Fin s \<and> 0 < s \<longrightarrow>
          vals (rows dg' ! i) ''minutes_played'' = Fin (s / 60) \<and> 0 < s / 60))"
proof (intro conjI impI)
  assume a: "''minutes_played'' \<in> set (fcolumns df) \<and>
    (\<forall>r\<in>set (rows df). \<exists>m. vals r ''minutes_played'' = Fin m \<and> 0 < m)"
  obtain out where out: "aggregate_by_player df features True = Inr out"
    and rs: "rows out = weighted_rows df features"
    using aggregate_weighted_rows a by blast
  have row: "(\<exists>t. agg_vals row ''minutes_played'' = Fin t \<and> 0 < t) \<and>
            (\<forall>col\<in>set features. col \<in> set (fcolumns df) \<and>
                 (\<forall>r\<in>set (rows df). vals r col \<noteq> PInf \<and> vals r col \<noteq> NInf) \<longrightarrow>
                 is_finite (agg_vals row col))"
    if "row \<in> set (rows out)" for row
  proof -
    let ?g = "group_of df (agg_player_feb_id row)"
    have mem: "row \<in> set (weighted_rows df features)" using that rs by simp
    have ne: "?g \<noteq> []" using weighted_rows_vals(3)[OF mem] by (rule group_of_nonempty)
    have sub: "set ?g \<subseteq> set (rows df)" by (auto simp: group_of_def)
    have pos: "\<forall>r\<in>set ?g. \<exists>m. vals r ''minutes_played'' = Fin m \<and> 0 < m" using a sub by blast
    have tot: "\<exists>t. agg_vals row ''minutes_played'' = Fin t \<and> 0 < t"
      using weighted_rows_vals(1)[OF mem] wm_total_pos[OF ne pos] by simp
    have "is_finite (agg_vals row col)"
      if c: "col \<in> set features" "col \<in> set (fcolumns df)"
        "\<forall>r\<in>set (rows df). vals r col \<noteq> PInf \<and> vals r col \<noteq> NInf" for col
    proof (cases "col = ''minutes_played''")
      case True
      then show ?thesis using tot by auto
    next
      case False
      have "\<forall>r\<in>set ?g. vals r col \<noteq> PInf \<and> vals r col \<noteq> NInf" using c(3) sub by blast
      from wm_value_finite[OF ne pos this] weighted_rows_vals(2)[OF mem c(1,2) False]
      show ?thesis by simp
    qed
    then show ?thesis using tot by blast
  qed
  show "\<exists>out. aggregate_by_player df features True = Inr out \<and>
         (\<forall>row\<in>set (rows out).
            (\<exists>t. agg_vals row ''minutes_played'' = Fin t \<and> 0 < t) \<and>
            (\<forall>col\<in>set features. col \<in> set (fcolumns df) \<and>
                 (\<forall>r\<in>set (rows df). vals r col \<noteq> PInf \<and> vals r col \<noteq> NInf) \<longrightarrow>
                 is_finite (agg_vals row col)))"
    using out row by blast
next
  show "\<exists>out. aggregate_by_player ex_zero_minutes [''pts_per36''] True = Inr out \<and>
      map (\<lambda>r. (agg_vals r ''minutes_played'', agg_vals r ''pts_per36'')) (rows out) = [(Fin 0, NaN)]"
    by (rule ex_zero_minutes_nan)
next
  show "\<forall>dg dg'. filter_by_minutes (dg :: player_row frame) (Fin 0) = Inr dg' \<longrightarrow>
      (\<forall>r\<in>set (rows dg'). vals r ''minutes'' = PInf \<or> (\<exists>s. vals r ''minutes'' = Fin s \<and> 0 < s))"
    using filter_by_minutes_positive by blast
next
  show "\<forall>dg dg'. convert_seconds_to_minutes (dg :: player_row frame) = Inr dg' \<longrightarrow>
      length (rows dg') = length (rows dg) \<and>
      (\<forall>i<length (rows dg). \<forall>s. vals (rows dg ! i) ''minutes'' = Fin s \<and> 0 < s \<longrightarrow>
          vals (rows dg' ! i) ''minutes_played'' = Fin (s / 60) \<and> 0 < s / 60)"
    by (auto simp: convert_seconds_to_minutes_def assign_def set_col_def split: option.splits)
qed

theorem weighted_division_safe_witness:
  "''minutes_played'' \<in> set (fcolumns ex_games) \<and>
   list_all (\<lambda>r. \<exists>m. vals r ''minutes_played'' = Fin m \<and> 0 < m) (rows ex_games) \<and>
   (\<exists>out. aggregate_by_player ex_games [''pts_per36''] True = Inr out \<and>
      list_all (\<lambda>row. is_finite (agg_vals row ''pts_per36'') \<and>
                  is_finite (agg_vals row ''minutes_played'')) (rows out))"
  using weighted_division_safe[of ex_games "[''pts_per36'']"]
  by (simp add: aggregate_by_player_def ex_games_def group_keys_def group_of_def mk_player_def
      cells_of_def weighted_mean_def fsum_def Let_def)

section \<open>Properties of the opponent resolution and of the pipeline\<close>

text \<open>
  C1. The opponent resolution at a team table in which the only match of the player
  table has no pair of team rows: one team row, or three. No link is emitted, and the
  merge with the frame of no links raises KeyError instead of leaving the opponent cells
  of the player rows missing.
\<close>

theorem resolve_opponents_without_pair_raises:
  "resolve_opponents ex_players_one_match ex_teams_unpaired = Inl (KeyError ''match_feb_id'') \<and>
   resolve_opponents ex_players_one_match ex_teams_three = Inl (KeyError ''match_feb_id'')"
  by (simp add: resolve_opponents_def assign_def ex_teams_unpaired_def ex_teams_three_def
      ex_team_columns_def ex_players_one_match_def mk_player_def mk_team_def opponent_data_def
      links_of_match_def set_col_def merge_opponents_def Let_def)

text \<open>
  With a pair of team rows for every match the resolution returns, and every player row
  carries the points and the possessions of the other team (the specification's example).
\<close>

lemma resolve_opponents_paired_example:
  "\<exists>df. resolve_opponents ex_players ex_teams = Inr df \<and>
     map (\<lambda>r. (player_feb_id r, match_feb_id r, vals r ''opponent_pts'', vals r ''opponent_possessions''))
       (rows df) =
     [(1, 1, Fin 60, Fin 65), (2, 1, Fin 70, Fin 70), (1, 2, Fin 60, Fin 65), (3, 2, Fin 70, Fin 70)]"
  by (simp add: resolve_opponents_def assign_def ex_teams_def ex_team_columns_def
      ex_players_def mk_player_def mk_team_def opponent_data_def links_of_match_def
      set_col_def merge_opponents_def Let_def ex_columns_def merged_name_def suffix_left_def
      INTERIOR_ZONES_MADE_def INTERIOR_ZONES_ATTEMPTED_def EXTERIOR_ZONES_MADE_def
      EXTERIOR_ZONES_ATTEMPTED_def possessions_of_def cells_of_def ex_team_a_def ex_team_b_def
      FREE_THROW_POSSESSION_FACTOR_def fsub_def)

text \<open>The three cases of the loop body, and the merge with no link at all.\<close>

lemma links_of_match_pair:
  assumes "filter (\<lambda>t. match_feb_id t = m) (rows df_teams) = [a, b]"
    and "team_feb_id a \<noteq> team_feb_id b"
    and "''team_possessions'' \<in> set (fcolumns df_teams)" "''pts'' \<in> set (fcolumns df_teams)"
  shows "links_of_match df_teams m =
     Inr [\<lparr>o_match_feb_id = m, o_team_feb_id = team_feb_id a,
           o_opponent_possessions = vals b ''team_possessions'', o_opponent_pts = vals b ''pts''\<rparr>,
          \<lparr>o_match_feb_id = m, o_team_feb_id = team_feb_id b,
           o_opponent_possessions = vals a ''team_possessions'', o_opponent_pts = vals a ''pts''\<rparr>]"
  using assms by (simp add: links_of_match_def Let_def)

lemma links_of_match_same_team:
  assumes "filter (\<lambda>t. match_feb_id t = m) (rows df_teams) = [a, b]"
    and "team_feb_id a = team_feb_id b"
  shows "links_of_match df_teams m = Inl IndexError"
  using assms by (simp add: links_of_match_def Let_def)

lemma links_of_match_no_pair:
  "length (filter (\<lambda>t. match_feb_id t = m) (rows df_teams)) \<noteq> 2 \<Longrightarrow>
     links_of_match df_teams m = Inr []"
  by (simp add: links_of_match_def Let_def)

lemma merge_opponents_no_link: "merge_opponents df [] = Inl (KeyError ''match_feb_id'')"
  by (simp add: merge_opponents_def)

lemma map_err_Inr_iff: "map_err f xs = Inr ys \<longleftrightarrow> list_all2 (\<lambda>x y. f x = Inr y) xs ys"
proof (induction xs arbitrary: ys)
  case Nil
  then show ?case by auto
next
  case (Cons x xs)
  show ?case
    by (cases ys) (auto simp: Cons.IH[symmetric] split: sum.splits)
qed

lemma bind_err_Inr_iff: "bind_err m f = Inr y \<longleftrightarrow> (\<exists>x. m = Inr x \<and> f x = Inr y)"
  by (cases m) simp_all

lemma set_unique [simp]: "set (unique xs) = set xs"
  by (induction xs) auto

lemma distinct_unique [simp]: "distinct (unique xs)"
  by (induction xs) auto

lemma links_of_match_keys:
  assumes "links_of_match df_teams m = Inr ls"
  shows "distinct (map link_key ls) \<and> (\<forall>l\<in>set ls. o_match_feb_id l = m)"
proof (cases "length (filter (\<lambda>t. match_feb_id t = m) (rows df_teams)) = 2")
  case False
  then show ?thesis using assms by (simp add: links_of_match_def Let_def)
next
  case True
  then obtain a b where ab: "filter (\<lambda>t. match_feb_id t = m) (rows df_teams) = [a, b]"
    by (auto simp: length_Suc_conv numeral_2_eq_2)
  from assms show ?thesis
    unfolding links_of_match_def Let_def ab
    by (auto simp: link_key_def split: sum.splits if_splits list.splits)
qed

lemma concat_links_distinct:
  assumes "list_all2 (\<lambda>m ls. links_of_match df_teams m = Inr ls) ms lss" "distinct ms"
  shows "distinct (map link_key (concat lss)) \<and> (\<forall>l\<in>set (concat lss). o_match_feb_id l \<in> set ms)"
  using assms
proof (induction rule: list_all2_induct)
  case Nil
  then show ?case by simp
next
  case (Cons m ms ls lss)
  have 1: "distinct (map link_key ls)" and 2: "\<forall>l\<in>set ls. o_match_feb_id l = m"
    using links_of_match_keys[OF Cons.hyps(1)] by auto
  have 3: "distinct (map link_key (concat lss))"
    and 4: "\<forall>l\<in>set (concat lss). o_match_feb_id l \<in> set ms"
    using Cons.IH Cons.prems by auto
  have "link_key a \<noteq> link_key b" if "a \<in> set ls" "b \<in> set (concat lss)" for a b
  proof -
    have "o_match_feb_id a = m" using 2 that(1) by blast
    moreover have "o_match_feb_id b \<in> set ms" using 4 that(2) by blast
    moreover have "m \<notin> set ms" using Cons.prems by simp
    ultimately show ?thesis by (auto simp: link_key_def)
  qed
  then have "set (map link_key ls) \<inter> set (map link_key (concat lss)) = {}"
    by (simp only: set_map disjoint_iff) (metis imageE)
  then have "distinct (map link_key (concat (ls # lss)))"
    using 1 3 by (simp del: set_map set_concat)
  moreover have "\<forall>l\<in>set (concat (ls # lss)). o_match_feb_id l \<in> set (m # ms)"
    using 2 4 by auto
  ultimately show ?case by blast
qed

lemma opponent_data_distinct:
  assumes "opponent_data df df_teams = Inr links"
  shows "distinct (map link_key links)"
proof -
  from assms obtain lss where
    "list_all2 (\<lambda>m ls. links_of_match df_teams m = Inr ls) (unique (map match_feb_id (rows df))) lss"
    and "links = concat lss"
    by (auto simp: opponent_data_def bind_err_Inr_iff map_err_Inr_iff)
  then show ?thesis using concat_links_distinct by fastforce
qed

lemma filter_key_cases:
  assumes "distinct (map f xs)"
  shows "filter (\<lambda>x. f x = k) xs = [] \<or> (\<exists>x. filter (\<lambda>x. f x = k) xs = [x])"
  using assms
proof (induction xs)
  case Nil
  then show ?case by simp
next
  case (Cons a xs)
  then show ?case by (auto simp: filter_empty_conv image_iff)
qed


lemma map_concat_singletons:
  "(\<And>r. r \<in> set rs \<Longrightarrow> map f (F r) = [g r]) \<Longrightarrow> map f (concat (map F rs)) = map g rs"
  by (induction rs) simp_all

lemma suffix_left_ids [simp]:
  "map player_feb_id (rows (suffix_left name df)) = map player_feb_id (rows df)"
  by (simp add: suffix_left_def rename_col_def comp_def)

lemma merge_opponents_ids:
  assumes "merge_opponents df links = Inr df'" and "distinct (map link_key links)"
  shows "map player_feb_id (rows df') = map player_feb_id (rows df)"
proof -
  let ?left = "suffix_left ''opponent_pts'' (suffix_left ''opponent_possessions'' df)"
  have one: "map player_feb_id
      (case filter (\<lambda>l. o_match_feb_id l = match_feb_id r \<and> o_team_feb_id l = team_feb_id r) links of
         [] \<Rightarrow> [r\<lparr>vals := (vals r)(p := NaN, q := NaN)\<rparr>]
       | ls \<Rightarrow> map (\<lambda>l. r\<lparr>vals := (vals r)(p := o_opponent_possessions l,
                                             q := o_opponent_pts l)\<rparr>) ls) = [player_feb_id r]"
    for r :: "'a player_row_scheme" and p q
  proof -
    have "(\<lambda>l. o_match_feb_id l = match_feb_id r \<and> o_team_feb_id l = team_feb_id r) =
          (\<lambda>l. link_key l = (match_feb_id r, team_feb_id r))"
      by (auto simp: link_key_def)
    then show ?thesis
      using filter_key_cases[OF assms(2), of "(match_feb_id r, team_feb_id r)"] by auto
  qed
  from assms(1) have "links \<noteq> []" by (auto simp: merge_opponents_def)
  with assms(1) have rs: "rows df' = concat (map (\<lambda>r.
      case filter (\<lambda>l. o_match_feb_id l = match_feb_id r \<and> o_team_feb_id l = team_feb_id r) links of
         [] \<Rightarrow> [r\<lparr>vals := (vals r)(merged_name (fcolumns df) ''opponent_possessions'' := NaN,
                                   merged_name (fcolumns df) ''opponent_pts'' := NaN)\<rparr>]
       | ls \<Rightarrow> map (\<lambda>l. r\<lparr>vals := (vals r)(merged_name (fcolumns df) ''opponent_possessions'' :=
                                                o_opponent_possessions l,
                                             merged_name (fcolumns df) ''opponent_pts'' :=
                                                o_opponent_pts l)\<rparr>) ls) (rows ?left))"
    by (auto simp: merge_opponents_def Let_def)
  have "map player_feb_id (rows df') = map player_feb_id (rows ?left)"
    unfolding rs by (rule map_concat_singletons[where g = player_feb_id]) (rule one)
  then show ?thesis by simp
qed

lemma resolve_opponents_ids:
  assumes "resolve_opponents players teams = Inr df"
  shows "map player_feb_id (rows df) = map player_feb_id (rows players)"
proof -
  from assms obtain t links where "opponent_data players t = Inr links"
    and "merge_opponents players links = Inr df"
    by (auto simp: resolve_opponents_def bind_err_Inr_iff)
  then show ?thesis using merge_opponents_ids opponent_data_distinct by blast
qed

lemma filter_by_games_played_rows:
  "rows (filter_by_games_played df k) =
     filter (\<lambda>r. k \<le> games_of df (player_feb_id r)) (rows df)"
  "fcolumns (filter_by_games_played df k) = fcolumns df"
proof -
  have "player_feb_id r \<in> fst ` {x \<in> (\<lambda>k. (k, length (filter (\<lambda>r. player_feb_id r = k) (rows df)))) `
           player_feb_id ` set (rows df). case x of (k', n) \<Rightarrow> k \<le> int n}
         \<longleftrightarrow> k \<le> games_of df (player_feb_id r)" if "r \<in> set (rows df)" for r
    using that by (force simp: games_of_def)
  then show "rows (filter_by_games_played df k) =
     filter (\<lambda>r. k \<le> games_of df (player_feb_id r)) (rows df)"
    by (auto simp: filter_by_games_played_def Let_def intro!: filter_cong)
  show "fcolumns (filter_by_games_played df k) = fcolumns df"
    by (simp add: filter_by_games_played_def Let_def)
qed


lemma rowwiseI:
  "(\<And>df. step df = (case E (fcolumns df) of Inl e \<Rightarrow> Inl e
       | Inr (C, G) \<Rightarrow> Inr \<lparr>fcolumns = C, rows = map (\<lambda>r. r\<lparr>vals := G r\<rparr>) (rows df)\<rparr>))
   \<Longrightarrow> rowwise step"
  unfolding rowwise_def by blast

lemma rowwise_assign: "rowwise (assign name needed f)"
  by (rule rowwiseI[where E = "\<lambda>cols. case find (\<lambda>c. c \<notin> set cols) needed of
         Some c \<Rightarrow> Inl (KeyError c)
       | None \<Rightarrow> Inr (if name \<in> set cols then cols else cols @ [name],
                       \<lambda>r. (vals r)(name := f r))"])
     (simp add: assign_def set_col_def split: option.splits)

lemma rowwise_Inr: "rowwise Inr"
  by (rule rowwiseI[where E = "\<lambda>cols. Inr (cols, vals)"]) simp

lemma rowwise_bind:
  assumes "rowwise f" "rowwise g"
  shows "rowwise (\<lambda>df. bind_err (f df) g)"
proof -
  obtain E1 where 1: "\<And>df. f df = (case E1 (fcolumns df) of Inl e \<Rightarrow> Inl e
       | Inr (C, G) \<Rightarrow> Inr \<lparr>fcolumns = C, rows = map (\<lambda>r. r\<lparr>vals := G r\<rparr>) (rows df)\<rparr>)"
    using assms(1) unfolding rowwise_def by blast
  obtain E2 where 2: "\<And>df. g df = (case E2 (fcolumns df) of Inl e \<Rightarrow> Inl e
       | Inr (C, G) \<Rightarrow> Inr \<lparr>fcolumns = C, rows = map (\<lambda>r. r\<lparr>vals := G r\<rparr>) (rows df)\<rparr>)"
    using assms(2) unfolding rowwise_def by blast
  show ?thesis
    by (rule rowwiseI[where E = "\<lambda>cols. case E1 cols of Inl e \<Rightarrow> Inl e
         | Inr (C1, G1) \<Rightarrow> (case E2 C1 of Inl e \<Rightarrow> Inl e
             | Inr (C2, G2) \<Rightarrow> Inr (C2, \<lambda>r. G2 (r\<lparr>vals := G1 r\<rparr>)))"])
       (simp add: 1 2 comp_def split: sum.splits prod.splits)
qed

lemma rowwise_if_cols:
  assumes "rowwise f" "rowwise g"
  shows "rowwise (\<lambda>df. if P (fcolumns df) then f df else g df)"
proof -
  obtain E1 where 1: "\<And>df. f df = (case E1 (fcolumns df) of Inl e \<Rightarrow> Inl e
       | Inr (C, G) \<Rightarrow> Inr \<lparr>fcolumns = C, rows = map (\<lambda>r. r\<lparr>vals := G r\<rparr>) (rows df)\<rparr>)"
    using assms(1) unfolding rowwise_def by blast
  obtain E2 where 2: "\<And>df. g df = (case E2 (fcolumns df) of Inl e \<Rightarrow> Inl e
       | Inr (C, G) \<Rightarrow> Inr \<lparr>fcolumns = C, rows = map (\<lambda>r. r\<lparr>vals := G r\<rparr>) (rows df)\<rparr>)"
    using assms(2) unfolding rowwise_def by blast
  show ?thesis
    by (rule rowwiseI[where E = "\<lambda>cols. if P cols then E1 cols else E2 cols"]) (simp add: 1 2)
qed

lemma rowwise_if_const:
  assumes "rowwise f" "rowwise g"
  shows "rowwise (\<lambda>df. if Q then f df else g df)"
  using assms by (cases Q) simp_all

lemma rowwise_normalize:
  "rowwise (\<lambda>df :: 'a base_row_scheme frame. normalize_per_minutes df stats minutes_col target)"
proof (induction stats)
  case Nil
  then show ?case by (simp add: rowwise_Inr)
next
  case (Cons stat stats)
  have "rowwise (\<lambda>df :: 'a base_row_scheme frame. if (\<lambda>cols. stat \<in> set cols) (fcolumns df)
         then bind_err (assign (stat @ ''_per'' @ str_nat target) [stat, minutes_col]
                (\<lambda>r. fmul (fdiv (vals r stat) (vals r minutes_col)) (Fin (real target))) df)
                (\<lambda>df'. normalize_per_minutes df' stats minutes_col target)
         else normalize_per_minutes df stats minutes_col target)"
    by (intro rowwise_if_cols rowwise_bind rowwise_assign) (rule Cons.IH)+
  then show ?case by simp
qed

lemma rowwise_apply_all:
  "rowwise (\<lambda>df. apply_all_transformations df stats im ia em ea target)"
proof -
  have der: "rowwise (\<lambda>df. if (\<lambda>cols. ''opponent_possessions'' \<in> set cols \<and> ''opponent_pts'' \<in> set cols)
       (fcolumns df) then calculate_der df else Inr df)"
    unfolding calculate_der_def by (intro rowwise_if_cols rowwise_assign rowwise_Inr)
  show ?thesis
    unfolding apply_all_transformations_def convert_seconds_to_minutes_def
      calculate_shooting_percentages_def calculate_usage_rates_def calculate_interior_stats_def
      calculate_exterior_stats_def calculate_possessions_def calculate_oer_def
      calculate_true_shooting_pct_def
    by (intro rowwise_bind rowwise_assign rowwise_normalize rowwise_if_const rowwise_Inr der)
qed

lemma rowwise_result:
  assumes "rowwise step" "step df = Inr df'"
  shows "map player_feb_id (rows df') = map player_feb_id (rows df)"
    and "fcolumns df2 = fcolumns df \<Longrightarrow>
           \<exists>d2. step df2 = Inr d2 \<and> fcolumns d2 = fcolumns df' \<and>
                map player_feb_id (rows d2) = map player_feb_id (rows df2)"
proof -
  obtain E where E: "\<And>df. step df = (case E (fcolumns df) of Inl e \<Rightarrow> Inl e
       | Inr (C, G) \<Rightarrow> Inr \<lparr>fcolumns = C, rows = map (\<lambda>r. r\<lparr>vals := G r\<rparr>) (rows df)\<rparr>)"
    using assms(1) unfolding rowwise_def by blast
  from assms(2) obtain C G where CG: "E (fcolumns df) = Inr (C, G)"
    and df': "df' = \<lparr>fcolumns = C, rows = map (\<lambda>r. r\<lparr>vals := G r\<rparr>) (rows df)\<rparr>"
    by (auto simp: E split: sum.splits)
  show "map player_feb_id (rows df') = map player_feb_id (rows df)"
    by (simp add: df' comp_def)
  show "\<exists>d2. step df2 = Inr d2 \<and> fcolumns d2 = fcolumns df' \<and>
                map player_feb_id (rows d2) = map player_feb_id (rows df2)"
    if "fcolumns df2 = fcolumns df"
    using that CG by (simp add: E df' comp_def)
qed


lemma aggregate_by_player_ids:
  "\<exists>out. aggregate_by_player df features w = Inr out \<and>
     map agg_player_feb_id (rows out) = group_keys (map player_feb_id (rows df))"
proof (cases "\<not> w \<or> ''minutes_played'' \<notin> set (fcolumns df)")
  case True
  then show ?thesis by (auto simp: aggregate_by_player_def Let_def comp_def case_prod_unfold)
next
  case False
  then have "w" "''minutes_played'' \<in> set (fcolumns df)" by auto
  then show ?thesis
    using aggregate_weighted_rows[of df features] by (auto simp: weighted_rows_ids)
qed

lemma games_of_alt:
  "games_of d p = int (length (filter (\<lambda>x. x = p) (map player_feb_id (rows d))))"
  by (simp add: games_of_def filter_map comp_def)

lemma games_of_ids:
  "map player_feb_id (rows a) = map player_feb_id (rows b) \<Longrightarrow> games_of a p = games_of b p"
  by (simp only: games_of_alt)

lemma transform_aggregated_players:
  assumes "transform_aggregated k players teams = Inr agg"
  shows "\<exists>agg'. transform_aggregated k' players teams = Inr agg' \<and>
     set (map agg_player_feb_id (rows agg')) =
       {p \<in> player_feb_id ` set (rows players). k' \<le> games_of players p}"
proof -
  let ?step = "\<lambda>df :: player_row frame. apply_all_transformations df
                 STATS_TO_NORMALIZE INTERIOR_ZONES_MADE INTERIOR_ZONES_ATTEMPTED
                 EXTERIOR_ZONES_MADE EXTERIOR_ZONES_ATTEMPTED MINUTES_NORMALIZATION"
  from assms obtain df df1 where res: "resolve_opponents players teams = Inr df"
    and app: "?step (filter_by_games_played df k) = Inr df1"
    by (auto simp: transform_aggregated_def bind_err_Inr_iff)
  have rw: "rowwise ?step" by (rule rowwise_apply_all)
  have "fcolumns (filter_by_games_played df k') = fcolumns (filter_by_games_played df k)"
    by (simp add: filter_by_games_played_rows)
  from rowwise_result(2)[OF rw app this] obtain d2
    where d2: "?step (filter_by_games_played df k') = Inr d2"
      and ids2: "map player_feb_id (rows d2) =
                 map player_feb_id (rows (filter_by_games_played df k'))"
    by blast
  obtain agg' where agg': "aggregate_by_player d2 (all_features_to_aggregate (fcolumns d2)) True = Inr agg'"
    and ida: "map agg_player_feb_id (rows agg') = group_keys (map player_feb_id (rows d2))"
    using aggregate_by_player_ids by blast
  have t: "transform_aggregated k' players teams = Inr agg'"
    by (simp add: transform_aggregated_def res d2 agg')
  have same: "map player_feb_id (rows df) = map player_feb_id (rows players)"
    using resolve_opponents_ids[OF res] .
  have g: "games_of df p = games_of players p" for p
    using games_of_ids[OF same] .
  have "set (map agg_player_feb_id (rows agg')) =
        player_feb_id ` {r \<in> set (rows df). k' \<le> games_of df (player_feb_id r)}"
    by (simp add: ida ids2 filter_by_games_played_rows)
  also have "\<dots> = {p \<in> player_feb_id ` set (rows df). k' \<le> games_of df p}" by auto
  also have "player_feb_id ` set (rows df) = player_feb_id ` set (rows players)"
    using same by (metis set_map)
  finally show ?thesis using t g by auto
qed

text \<open>
  C3. \<open>filter_by_games_played\<close> keeps exactly the rows of the players with at least
  \<open>min_games\<close> game rows (a count equal to the threshold is kept). Whenever the
  pipeline returns its aggregated table, the players of that table are exactly the players
  of the input with at least \<open>min_games\<close> game rows, and with any other threshold
  the pipeline returns as well, with exactly the players that meet that threshold: a
  player below the threshold is absent, and the threshold lowered to the player's count
  brings the player back.
\<close>

theorem filter_by_games_played_threshold:
  "rows (filter_by_games_played df min_games) =
     filter (\<lambda>r. min_games \<le> games_of df (player_feb_id r)) (rows df) \<and>
   (\<forall>agg. transform_aggregated min_games players teams = Inr agg \<longrightarrow>
      (\<forall>p. p \<in> set (map agg_player_feb_id (rows agg)) \<longleftrightarrow>
            p \<in> player_feb_id ` set (rows players) \<and> min_games \<le> games_of players p) \<and>
      (\<forall>lower. \<exists>agg'. transform_aggregated lower players teams = Inr agg' \<and>
         (\<forall>p. p \<in> set (map agg_player_feb_id (rows agg')) \<longleftrightarrow>
               p \<in> player_feb_id ` set (rows players) \<and> lower \<le> games_of players p)))"
proof (intro conjI allI impI)
  show "rows (filter_by_games_played df min_games) =
     filter (\<lambda>r. min_games \<le> games_of df (player_feb_id r)) (rows df)"
    by (rule filter_by_games_played_rows)
next
  fix agg p
  assume a: "transform_aggregated min_games players teams = Inr agg"
  from transform_aggregated_players[OF a, of min_games] a
  show "p \<in> set (map agg_player_feb_id (rows agg)) \<longleftrightarrow>
            p \<in> player_feb_id ` set (rows players) \<and> min_games \<le> games_of players p"
    by auto
next
  fix agg lower
  assume a: "transform_aggregated min_games players teams = Inr agg"
  from transform_aggregated_players[OF a, of lower]
  show "\<exists>agg'. transform_aggregated lower players teams = Inr agg' \<and>
         (\<forall>p. p \<in> set (map agg_player_feb_id (rows agg')) \<longleftrightarrow>
               p \<in> player_feb_id ` set (rows players) \<and> lower \<le> games_of players p)"
    by auto
qed

lemma transform_aggregated_succeeds:
  assumes res: "resolve_opponents players teams = Inr df"
    and emp: "apply_all_transformations \<lparr>fcolumns = fcolumns df, rows = [] :: player_row list\<rparr>
                 STATS_TO_NORMALIZE INTERIOR_ZONES_MADE INTERIOR_ZONES_ATTEMPTED
                 EXTERIOR_ZONES_MADE EXTERIOR_ZONES_ATTEMPTED MINUTES_NORMALIZATION = Inr d0"
  shows "\<exists>agg. transform_aggregated k players teams = Inr agg"
proof -
  let ?step = "\<lambda>df :: player_row frame. apply_all_transformations df
                 STATS_TO_NORMALIZE INTERIOR_ZONES_MADE INTERIOR_ZONES_ATTEMPTED
                 EXTERIOR_ZONES_MADE EXTERIOR_ZONES_ATTEMPTED MINUTES_NORMALIZATION"
  have rw: "rowwise ?step" by (rule rowwise_apply_all)
  have "fcolumns (filter_by_games_played df k) = fcolumns \<lparr>fcolumns = fcolumns df, rows = [] :: player_row list\<rparr>"
    by (simp add: filter_by_games_played_rows)
  from rowwise_result(2)[OF rw emp this] obtain d2
    where d2: "?step (filter_by_games_played df k) = Inr d2" by blast
  obtain agg where "aggregate_by_player d2 (all_features_to_aggregate (fcolumns d2)) True = Inr agg"
    using aggregate_by_player_ids by blast
  then show ?thesis by (simp add: transform_aggregated_def res d2)
qed

lemma ex_resolved:
  "\<exists>df. resolve_opponents ex_players ex_teams = Inr df \<and>
        fcolumns df = ex_columns @ [''opponent_possessions'', ''opponent_pts'']"
  by (simp add: resolve_opponents_def assign_def ex_teams_def ex_team_columns_def
      ex_players_def mk_player_def mk_team_def opponent_data_def links_of_match_def
      set_col_def merge_opponents_def Let_def ex_columns_def merged_name_def suffix_left_def
      INTERIOR_ZONES_MADE_def INTERIOR_ZONES_ATTEMPTED_def EXTERIOR_ZONES_MADE_def
      EXTERIOR_ZONES_ATTEMPTED_def)

lemma ex_columns_suffice:
  "\<exists>d0. apply_all_transformations
      \<lparr>fcolumns = ex_columns @ [''opponent_possessions'', ''opponent_pts''], rows = [] :: player_row list\<rparr>
      STATS_TO_NORMALIZE INTERIOR_ZONES_MADE INTERIOR_ZONES_ATTEMPTED
      EXTERIOR_ZONES_MADE EXTERIOR_ZONES_ATTEMPTED MINUTES_NORMALIZATION = Inr d0"
  by (simp add: assign_def set_col_def ex_columns_def
      INTERIOR_ZONES_MADE_def INTERIOR_ZONES_ATTEMPTED_def EXTERIOR_ZONES_MADE_def
      EXTERIOR_ZONES_ATTEMPTED_def STATS_TO_NORMALIZE_def MINUTES_NORMALIZATION_def
      apply_all_transformations_def
      convert_seconds_to_minutes_def calculate_shooting_percentages_def calculate_usage_rates_def
      calculate_interior_stats_def calculate_exterior_stats_def calculate_possessions_def
      calculate_oer_def calculate_true_shooting_pct_def calculate_der_def digit_char_def)


lemma ex_transform_succeeds: "\<exists>agg. transform_aggregated k ex_players ex_teams = Inr agg"
proof -
  obtain df where df: "resolve_opponents ex_players ex_teams = Inr df"
    and cols: "fcolumns df = ex_columns @ [''opponent_possessions'', ''opponent_pts'']"
    using ex_resolved by blast
  from ex_columns_suffice obtain d0 where "apply_all_transformations
      \<lparr>fcolumns = fcolumns df, rows = [] :: player_row list\<rparr>
      STATS_TO_NORMALIZE INTERIOR_ZONES_MADE INTERIOR_ZONES_ATTEMPTED
      EXTERIOR_ZONES_MADE EXTERIOR_ZONES_ATTEMPTED MINUTES_NORMALIZATION = Inr d0"
    unfolding cols by blast
  from transform_aggregated_succeeds[OF df this] show ?thesis .
qed

lemma ex_players_games:
  "player_feb_id ` set (rows ex_players) = {1, 2, 3}"
  "games_of ex_players 1 = 2" "games_of ex_players 2 = 1" "games_of ex_players 3 = 1"
  by (simp_all add: ex_players_def mk_player_def games_of_def insert_commute)

theorem filter_by_games_played_threshold_witness:
  "(\<exists>agg. transform_aggregated 2 ex_players ex_teams = Inr agg \<and>
          set (map agg_player_feb_id (rows agg)) = {1}) \<and>
   (\<exists>agg'. transform_aggregated 1 ex_players ex_teams = Inr agg' \<and>
          set (map agg_player_feb_id (rows agg')) = {1, 2, 3}) \<and>
   map player_feb_id (rows (filter_by_games_played ex_players 2)) = [1, 1]"
proof -
  obtain agg where agg: "transform_aggregated 2 ex_players ex_teams = Inr agg"
    using ex_transform_succeeds by blast
  note inst = filter_by_games_played_threshold[of ex_players 2 ex_players ex_teams]
  from inst agg have 1: "\<forall>p. p \<in> set (map agg_player_feb_id (rows agg)) \<longleftrightarrow>
      p \<in> player_feb_id ` set (rows ex_players) \<and> 2 \<le> games_of ex_players p" by blast
  from inst agg obtain agg' where agg': "transform_aggregated 1 ex_players ex_teams = Inr agg'"
    and 2: "\<forall>p. p \<in> set (map agg_player_feb_id (rows agg')) \<longleftrightarrow>
      p \<in> player_feb_id ` set (rows ex_players) \<and> 1 \<le> games_of ex_players p" by blast
  have a: "set (map agg_player_feb_id (rows agg)) = {1}"
    using 1 unfolding ex_players_games(1) by (auto simp: ex_players_games)
  have b: "set (map agg_player_feb_id (rows agg')) = {1, 2, 3}"
    using 2 unfolding ex_players_games(1) by (auto simp: ex_players_games)
  have c: "map player_feb_id (rows (filter_by_games_played ex_players 2)) = [1, 1]"
    using inst by (simp add: ex_players_def mk_player_def games_of_def)
  show ?thesis using agg agg' a b c by blast
qed

end
